theory Spec2Isabelle
  imports Complex_Main
begin

section \<open>Radiometric calibration: \<open>RSGISStandardDN2RadianceCalibration.cpp\<close>\<close>

text \<open>
  Modelling conventions for the C++ source.

  \<^item> A \<open>float\<close> or \<open>double\<close> value is read as a \<open>real\<close>: arithmetic is exact, rounding,
    infinities and NaN are not modelled. The theorems below that are about control flow and
    data flow do not depend on this reading.
  \<^item> An array reached through a raw pointer (\<open>float *bandValues\<close>, \<open>float *output\<close>,
    the \<open>radGainOff\<close> table) is the function from offsets to the values stored there; a
    store \<open>p[i] = v\<close> is the function update \<open>p(i := v)\<close>. The input pixel, the output
    pixel and the parameter table are separate arrays.
  \<^item> \<open>throw\<close> is made a value: every \<open>calcImageValue\<close> returns the exception it threw,
    if any, together with the contents of \<open>output\<close> at the moment it returned or threw.
\<close>

datatype RSGISImageCalcException = RSGISImageCalcException string

type_synonym 'a carray = "nat \<Rightarrow> 'a"

type_synonym calc_result = "RSGISImageCalcException option \<times> real carray"

text \<open>
  The per-band parameter structs. The header that declares them is not among the sources;
  each record lists the fields that the calibration code reads, under the names it uses.
  The band number is an integer compared with \<open>int numBands\<close>.
\<close>

record LandsatRadianceGainsOffsets =
  band :: int
  lMax :: real
  lMin :: real
  qCalMax :: real
  qCalMin :: real

record SPOTRadianceGainsOffsets =
  band :: int
  gain :: real

record IkonosRadianceGainsOffsets =
  band :: int
  calCoef :: real
  bandwidth :: real

record ASTERRadianceGainsOffsets =
  band :: int
  unitConCoef :: real

record IRSRadianceGainsOffsets =
  band :: int
  lMax :: real
  lMin :: real
  qCalMax :: real
  qCalMin :: real

record Quickbird16bitRadianceGainsOffsets =
  band :: int
  calFactor :: real
  bandIntegrate :: real

record Quickbird8bitRadianceGainsOffsets =
  band :: int
  calFactor :: real
  k :: real
  bandIntegrate :: real

record WorldView2RadianceGainsOffsets =
  band :: int
  calFactor :: real
  bandIntegrate :: real

text \<open>
  The calibration object: \<open>numOutBands\<close> (inherited from \<open>RSGISCalcImageValue\<close>, a count)
  and the table \<open>radGainOff\<close> with one parameter struct per output band.
\<close>

record 'p RSGISRadianceCalibration =
  numOutBands :: nat
  radGainOff :: "'p carray"

text \<open>The conversion \<open>int(x)\<close> of a float: truncation towards zero.\<close>

definition float_to_int :: "real \<Rightarrow> int" where
  "float_to_int x = (if 0 \<le> x then \<lfloor>x\<rfloor> else \<lceil>x\<rceil>)"

definition bandRangeException :: RSGISImageCalcException where
  "bandRangeException = RSGISImageCalcException ''Band is not within input image bands.''"

text \<open>
  The loop shared by all eight functions,
  \<^verbatim>\<open>for(unsigned int i = 0; i < this->numOutBands; ++i)
  {
      if(this->radGainOff[i].band > numBands) { throw ...; }
      output[i] = <formula for band i>;
  }\<close>
  with the band number of entry \<open>i\<close> and the formula for band \<open>i\<close> as parameters.
  The counter \<open>i\<close> and the current contents of \<open>output\<close> are the loop state.
\<close>

function forOutBands ::
  "nat \<Rightarrow> (nat \<Rightarrow> int) \<Rightarrow> int \<Rightarrow> (nat \<Rightarrow> real) \<Rightarrow> nat \<Rightarrow> real carray \<Rightarrow> calc_result" where
  "forOutBands nOut bandOf numBands formula i output =
     (if i < nOut then
        (if bandOf i > numBands then (Some bandRangeException, output)
         else forOutBands nOut bandOf numBands formula (Suc i) (output(i := formula i)))
      else (None, output))"
  by pat_completeness auto
termination
  by (relation "measure (\<lambda>(nOut, bandOf, numBands, formula, i, output). nOut - i)") auto

declare forOutBands.simps [simp del]

text \<open>The loop of the border branch of the Landsat function: \<open>output[i] = 0\<close> for every band.\<close>

function zeroOutBands :: "nat \<Rightarrow> nat \<Rightarrow> real carray \<Rightarrow> real carray" where
  "zeroOutBands nOut i output =
     (if i < nOut then zeroOutBands nOut (Suc i) (output(i := 0)) else output)"
  by pat_completeness auto
termination
  by (relation "measure (\<lambda>(nOut, i, output). nOut - i)") auto

declare zeroOutBands.simps [simp del]

definition RSGISLandsatRadianceCalibration_calcImageValue ::
  "LandsatRadianceGainsOffsets RSGISRadianceCalibration \<Rightarrow> real carray \<Rightarrow> int \<Rightarrow> real carray
     \<Rightarrow> calc_result" where
  "RSGISLandsatRadianceCalibration_calcImageValue this bandValues numBands output =
     (if float_to_int (bandValues 0) = 0
      then (None, zeroOutBands (numOutBands this) 0 output)
      else forOutBands (numOutBands this)
             (\<lambda>i. LandsatRadianceGainsOffsets.band (radGainOff this i)) numBands
             (\<lambda>i. let gain = (LandsatRadianceGainsOffsets.lMax (radGainOff this i)
                                 - LandsatRadianceGainsOffsets.lMin (radGainOff this i))
                               / (LandsatRadianceGainsOffsets.qCalMax (radGainOff this i)
                                 - LandsatRadianceGainsOffsets.qCalMin (radGainOff this i))
                  in gain * (bandValues i - LandsatRadianceGainsOffsets.qCalMin (radGainOff this i))
                     + LandsatRadianceGainsOffsets.lMin (radGainOff this i))
             0 output)"

definition RSGISSPOTRadianceCalibration_calcImageValue ::
  "SPOTRadianceGainsOffsets RSGISRadianceCalibration \<Rightarrow> real carray \<Rightarrow> int \<Rightarrow> real carray
     \<Rightarrow> calc_result" where
  "RSGISSPOTRadianceCalibration_calcImageValue this bandValues numBands output =
     forOutBands (numOutBands this)
       (\<lambda>i. SPOTRadianceGainsOffsets.band (radGainOff this i)) numBands
       (\<lambda>i. bandValues i / gain (radGainOff this i))
       0 output"

definition RSGISIkonosRadianceCalibration_calcImageValue ::
  "IkonosRadianceGainsOffsets RSGISRadianceCalibration \<Rightarrow> real carray \<Rightarrow> int \<Rightarrow> real carray
     \<Rightarrow> calc_result" where
  "RSGISIkonosRadianceCalibration_calcImageValue this bandValues numBands output =
     forOutBands (numOutBands this)
       (\<lambda>i. IkonosRadianceGainsOffsets.band (radGainOff this i)) numBands
       (\<lambda>i. (100000 * bandValues i) / (calCoef (radGainOff this i) * bandwidth (radGainOff this i)))
       0 output"

definition RSGISASTERRadianceCalibration_calcImageValue ::
  "ASTERRadianceGainsOffsets RSGISRadianceCalibration \<Rightarrow> real carray \<Rightarrow> int \<Rightarrow> real carray
     \<Rightarrow> calc_result" where
  "RSGISASTERRadianceCalibration_calcImageValue this bandValues numBands output =
     forOutBands (numOutBands this)
       (\<lambda>i. ASTERRadianceGainsOffsets.band (radGainOff this i)) numBands
       (\<lambda>i. (bandValues i - 1) * unitConCoef (radGainOff this i))
       0 output"

definition RSGISIRSRadianceCalibration_calcImageValue ::
  "IRSRadianceGainsOffsets RSGISRadianceCalibration \<Rightarrow> real carray \<Rightarrow> int \<Rightarrow> real carray
     \<Rightarrow> calc_result" where
  "RSGISIRSRadianceCalibration_calcImageValue this bandValues numBands output =
     forOutBands (numOutBands this)
       (\<lambda>i. IRSRadianceGainsOffsets.band (radGainOff this i)) numBands
       (\<lambda>i. let gain = (IRSRadianceGainsOffsets.lMax (radGainOff this i)
                           - IRSRadianceGainsOffsets.lMin (radGainOff this i))
                         / (IRSRadianceGainsOffsets.qCalMax (radGainOff this i)
                           - IRSRadianceGainsOffsets.qCalMin (radGainOff this i))
            in gain * (bandValues i - IRSRadianceGainsOffsets.qCalMin (radGainOff this i))
               + IRSRadianceGainsOffsets.lMin (radGainOff this i))
       0 output"

definition RSGISQuickbird16bitRadianceCalibration_calcImageValue ::
  "Quickbird16bitRadianceGainsOffsets RSGISRadianceCalibration \<Rightarrow> real carray \<Rightarrow> int
     \<Rightarrow> real carray \<Rightarrow> calc_result" where
  "RSGISQuickbird16bitRadianceCalibration_calcImageValue this bandValues numBands output =
     forOutBands (numOutBands this)
       (\<lambda>i. Quickbird16bitRadianceGainsOffsets.band (radGainOff this i)) numBands
       (\<lambda>i. (bandValues i * Quickbird16bitRadianceGainsOffsets.calFactor (radGainOff this i))
             / Quickbird16bitRadianceGainsOffsets.bandIntegrate (radGainOff this i))
       0 output"

definition RSGISQuickbird8bitRadianceCalibration_calcImageValue ::
  "Quickbird8bitRadianceGainsOffsets RSGISRadianceCalibration \<Rightarrow> real carray \<Rightarrow> int
     \<Rightarrow> real carray \<Rightarrow> calc_result" where
  "RSGISQuickbird8bitRadianceCalibration_calcImageValue this bandValues numBands output =
     forOutBands (numOutBands this)
       (\<lambda>i. Quickbird8bitRadianceGainsOffsets.band (radGainOff this i)) numBands
       (\<lambda>i. (bandValues i * Quickbird8bitRadianceGainsOffsets.calFactor (radGainOff this i)
                * k (radGainOff this i))
             / Quickbird8bitRadianceGainsOffsets.bandIntegrate (radGainOff this i))
       0 output"

definition RSGISWorldView2RadianceCalibration_calcImageValue ::
  "WorldView2RadianceGainsOffsets RSGISRadianceCalibration \<Rightarrow> real carray \<Rightarrow> int
     \<Rightarrow> real carray \<Rightarrow> calc_result" where
  "RSGISWorldView2RadianceCalibration_calcImageValue this bandValues numBands output =
     forOutBands (numOutBands this)
       (\<lambda>i. WorldView2RadianceGainsOffsets.band (radGainOff this i)) numBands
       (\<lambda>i. (WorldView2RadianceGainsOffsets.calFactor (radGainOff this i) * bandValues i)
             / WorldView2RadianceGainsOffsets.bandIntegrate (radGainOff this i))
       0 output"

section \<open>The ISODATA visitors' overloads: \<open>RSGISISODATAImageClassifier.h\<close>\<close>

text \<open>
  The interface \<open>RSGISCalcImageValue\<close> declares eight overloads of \<open>calcImageValue\<close> and the
  method \<open>calcImageValueCondition\<close>. A call is the choice of one of them together with its
  arguments; \<open>float ***dataBlock\<close> is a three-dimensional array, \<open>geos::geom::Envelope\<close> the
  bounding box of the GEOS library. The constructors, in the order of the declarations:
  \<^item> \<open>BandValues_Output\<close>: \<open>(float *bandValues, int numBands, float *output)\<close>;
  \<^item> \<open>BandValues\<close>: \<open>(float *bandValues, int numBands)\<close>;
  \<^item> \<open>IntFloatValues\<close>: \<open>(long *intBandValues, unsigned int numIntVals,
    float *floatBandValues, unsigned int numfloatVals)\<close>;
  \<^item> \<open>IntFloatValues_Output\<close>: the same with \<open>float *output\<close>;
  \<^item> \<open>BandValues_Extent\<close>: \<open>(float *bandValues, int numBands, Envelope extent)\<close>;
  \<^item> \<open>BandValues_Output_Extent\<close>: \<open>(float *bandValues, int numBands, float *output,
    Envelope extent)\<close>;
  \<^item> \<open>DataBlock_Output\<close>: \<open>(float ***dataBlock, int numBands, int winSize, float *output)\<close>;
  \<^item> \<open>DataBlock_Output_Extent\<close>: the same with \<open>Envelope extent\<close>;
  \<^item> \<open>Condition_DataBlock_Output\<close>: the arguments of \<open>calcImageValueCondition\<close>, those of
    \<open>DataBlock_Output\<close>.
\<close>

record Envelope =
  minx :: real
  maxx :: real
  miny :: real
  maxy :: real

datatype calcImageValueArgs =
    is_BandValues_Output: BandValues_Output "real carray" int "real carray"
  | is_BandValues: BandValues "real carray" int
  | is_IntFloatValues: IntFloatValues "int carray" nat "real carray" nat
  | is_IntFloatValues_Output: IntFloatValues_Output "int carray" nat "real carray" nat "real carray"
  | is_BandValues_Extent: BandValues_Extent "real carray" int Envelope
  | is_BandValues_Output_Extent: BandValues_Output_Extent "real carray" int "real carray" Envelope
  | is_DataBlock_Output: DataBlock_Output "nat \<Rightarrow> nat \<Rightarrow> nat \<Rightarrow> real" int int "real carray"
  | is_DataBlock_Output_Extent: DataBlock_Output_Extent "nat \<Rightarrow> nat \<Rightarrow> nat \<Rightarrow> real" int int "real carray" Envelope
  | is_Condition_DataBlock_Output: Condition_DataBlock_Output "nat \<Rightarrow> nat \<Rightarrow> nat \<Rightarrow> real" int int "real carray"

text \<open>
  What the header defines for each of the three visitor classes: the exception that the inline
  body of the chosen overload throws, or \<open>None\<close> for the one overload that the class only
  declares there and defines out of line. The arguments are ignored by every inline body.
\<close>

fun RSGISISODATACalcPixelClusterCalcImageVal_calcImageValue :: "calcImageValueArgs \<Rightarrow> RSGISImageCalcException option" where
    "RSGISISODATACalcPixelClusterCalcImageVal_calcImageValue (BandValues_Output a b c) = Some (RSGISImageCalcException ''Not Implemented'')"
  | "RSGISISODATACalcPixelClusterCalcImageVal_calcImageValue (BandValues a b) = None"
  | "RSGISISODATACalcPixelClusterCalcImageVal_calcImageValue (IntFloatValues a b c d) = Some (RSGISImageCalcException ''Not implemented'')"
  | "RSGISISODATACalcPixelClusterCalcImageVal_calcImageValue (IntFloatValues_Output a b c d e) = Some (RSGISImageCalcException ''Not implemented'')"
  | "RSGISISODATACalcPixelClusterCalcImageVal_calcImageValue (BandValues_Extent a b c) = Some (RSGISImageCalcException ''Not Implemented'')"
  | "RSGISISODATACalcPixelClusterCalcImageVal_calcImageValue (BandValues_Output_Extent a b c d) = Some (RSGISImageCalcException ''Not Implemented'')"
  | "RSGISISODATACalcPixelClusterCalcImageVal_calcImageValue (DataBlock_Output a b c d) = Some (RSGISImageCalcException ''Not Implemented'')"
  | "RSGISISODATACalcPixelClusterCalcImageVal_calcImageValue (DataBlock_Output_Extent a b c d e) = Some (RSGISImageCalcException ''No implemented'')"
  | "RSGISISODATACalcPixelClusterCalcImageVal_calcImageValue (Condition_DataBlock_Output a b c d) = Some (RSGISImageCalcException ''Not Implemented'')"

fun RSGISISODATACalcPixelClusterStdDevCalcImageVal_calcImageValue :: "calcImageValueArgs \<Rightarrow> RSGISImageCalcException option" where
    "RSGISISODATACalcPixelClusterStdDevCalcImageVal_calcImageValue (BandValues_Output a b c) = Some (RSGISImageCalcException ''Not Implemented'')"
  | "RSGISISODATACalcPixelClusterStdDevCalcImageVal_calcImageValue (BandValues a b) = None"
  | "RSGISISODATACalcPixelClusterStdDevCalcImageVal_calcImageValue (IntFloatValues a b c d) = Some (RSGISImageCalcException ''Not implemented'')"
  | "RSGISISODATACalcPixelClusterStdDevCalcImageVal_calcImageValue (IntFloatValues_Output a b c d e) = Some (RSGISImageCalcException ''Not implemented'')"
  | "RSGISISODATACalcPixelClusterStdDevCalcImageVal_calcImageValue (BandValues_Extent a b c) = Some (RSGISImageCalcException ''Not Implemented'')"
  | "RSGISISODATACalcPixelClusterStdDevCalcImageVal_calcImageValue (BandValues_Output_Extent a b c d) = Some (RSGISImageCalcException ''Not Implemented'')"
  | "RSGISISODATACalcPixelClusterStdDevCalcImageVal_calcImageValue (DataBlock_Output a b c d) = Some (RSGISImageCalcException ''Not Implemented'')"
  | "RSGISISODATACalcPixelClusterStdDevCalcImageVal_calcImageValue (DataBlock_Output_Extent a b c d e) = Some (RSGISImageCalcException ''No implemented'')"
  | "RSGISISODATACalcPixelClusterStdDevCalcImageVal_calcImageValue (Condition_DataBlock_Output a b c d) = Some (RSGISImageCalcException ''Not Implemented'')"

fun RSGISApplyISODATAClassifierCalcImageVal_calcImageValue :: "calcImageValueArgs \<Rightarrow> RSGISImageCalcException option" where
    "RSGISApplyISODATAClassifierCalcImageVal_calcImageValue (BandValues_Output a b c) = None"
  | "RSGISApplyISODATAClassifierCalcImageVal_calcImageValue (BandValues a b) = Some (RSGISImageCalcException ''Not Implemented'')"
  | "RSGISApplyISODATAClassifierCalcImageVal_calcImageValue (IntFloatValues a b c d) = Some (RSGISImageCalcException ''Not implemented'')"
  | "RSGISApplyISODATAClassifierCalcImageVal_calcImageValue (IntFloatValues_Output a b c d e) = Some (RSGISImageCalcException ''Not implemented'')"
  | "RSGISApplyISODATAClassifierCalcImageVal_calcImageValue (BandValues_Extent a b c) = Some (RSGISImageCalcException ''Not Implemented'')"
  | "RSGISApplyISODATAClassifierCalcImageVal_calcImageValue (BandValues_Output_Extent a b c d) = Some (RSGISImageCalcException ''Not Implemented'')"
  | "RSGISApplyISODATAClassifierCalcImageVal_calcImageValue (DataBlock_Output a b c d) = Some (RSGISImageCalcException ''Not Implemented'')"
  | "RSGISApplyISODATAClassifierCalcImageVal_calcImageValue (DataBlock_Output_Extent a b c d e) = Some (RSGISImageCalcException ''No implemented'')"
  | "RSGISApplyISODATAClassifierCalcImageVal_calcImageValue (Condition_DataBlock_Output a b c d) = Some (RSGISImageCalcException ''Not Implemented'')"

text \<open>The three spellings of the message in the header.\<close>

definition notImplementedMessages :: "string set" where
  "notImplementedMessages = {''Not Implemented'', ''Not implemented'', ''No implemented''}"

section \<open>ISODATA clustering core\<close>

text \<open>
  Of the ISODATA classifier the sources hold the header only: the bodies of the three
  visitors' implemented \<open>calcImageValue\<close> and of \<open>calcClusterCentres\<close> are in a file that is
  not among them. The definitions of this section are therefore written from the design document
  (sections 3, 4.2, 4.4 and 4.5), with the member names of the header where it declares them.
  A pixel vector is the list of its band values, the band count its length; floats are reals.
\<close>

text \<open>
  Modelled from the spec: the centroid record \<open>ClusterCentreISO\<close>, whose declaration is
  missing. Section 3: an integer cluster ID, the vector of per-band means, the vector of per-band
  standard deviations and the population count.
\<close>

record ClusterCentreISO =
  clusterID :: nat
  mean :: "real list"
  stddev :: "real list"
  population :: nat

text \<open>
  Modelled from the spec: the border test, missing with the visitors' bodies. Section 3: a
  pixel vector whose first band value truncates to exactly 0 is a border/no-data pixel.
\<close>

definition isBorder :: "real list \<Rightarrow> bool" where
  "isBorder v = (case v of [] \<Rightarrow> False | x # _ \<Rightarrow> float_to_int x = 0)"

text \<open>
  Modelled from the spec: the Euclidean distance in band space between a pixel vector and a
  mean vector (sections 4.2 and 4.4), missing with the visitors' bodies.
\<close>

definition euclideanDistance :: "real list \<Rightarrow> real list \<Rightarrow> real" where
  "euclideanDistance v m = sqrt (\<Sum>(a, b) \<leftarrow> zip v m. (a - b)\<^sup>2)"

text \<open>
  Modelled from the spec: the nearest-centroid search, missing with the visitors' bodies.
  Section 4.2, step 1: compute the distance from \<open>v\<close> to every published centroid and select
  the minimum, ties broken by the first encountered in iteration order. The loop carries the
  index and distance of the best centroid so far and replaces them only by a strictly smaller
  distance; \<open>i\<close> is the index of the centroid under inspection.
\<close>

fun nearestFrom ::
  "real list \<Rightarrow> ClusterCentreISO list \<Rightarrow> nat \<Rightarrow> nat \<times> real \<Rightarrow> nat \<times> real" where
  "nearestFrom v [] i best = best"
| "nearestFrom v (c # cs) i (minIdx, minDist) =
     (let d = euclideanDistance v (mean c)
      in if d < minDist then nearestFrom v cs (Suc i) (i, d)
         else nearestFrom v cs (Suc i) (minIdx, minDist))"

text \<open>
  Modelled from the spec: the entry of the search, missing with the visitors' bodies. The
  first published centroid is the first candidate (index 0); without centroids there is no
  nearest one.
\<close>

definition nearestCentroid :: "real list \<Rightarrow> ClusterCentreISO list \<Rightarrow> (nat \<times> real) option" where
  "nearestCentroid v cs =
     (case cs of
        [] \<Rightarrow> None
      | c # rest \<Rightarrow> Some (nearestFrom v rest 1 (0, euclideanDistance v (mean c))))"

text \<open>
  Modelled from the spec: the errors of the clustering core, which the header only names by
  their C++ exception classes. Section 7 gives the taxonomy.
\<close>

datatype ISODATAError = ConfigurationError | BandRangeError | ClusteringFailure | IOError | StateError

text \<open>
  The state of the Accumulator visitor: the protected members that the header declares for
  \<open>RSGISISODATACalcPixelClusterCalcImageVal\<close>. \<open>clusterCentres\<close> is the published set,
  \<open>newClusterCentres\<close> the working set.
\<close>

record RSGISISODATACalcPixelClusterCalcImageVal =
  clusterCentres :: "ClusterCentreISO list"
  newClusterCentres :: "ClusterCentreISO list"
  numImageBands :: nat
  sumDist :: real
  numVals :: nat

text \<open>
  Modelled from the spec: the accumulation of one pixel into a working centroid, missing with
  the Accumulator's body. Section 4.2, step 3: the running sum, the running sum of squares and
  the count. The working entry has the type of a centroid (the header gives both sets the same
  element type): during a pass \<open>mean\<close> holds the per-band sum and \<open>stddev\<close> the per-band sum of
  squares, from which the means are computed after the pass.
\<close>

definition accumulate :: "real list \<Rightarrow> ClusterCentreISO \<Rightarrow> ClusterCentreISO" where
  "accumulate v w =
     w\<lparr>mean := map2 (\<lambda>s x. s + x) (mean w) v,
       stddev := map2 (\<lambda>s x. s + x\<^sup>2) (stddev w) v,
       population := Suc (population w)\<rparr>"

text \<open>
  Modelled from the spec: the Accumulator's \<open>calcImageValue(float *bandValues, int numBands)\<close>,
  declared at line 76 of the header and defined in the missing file. Section 4.2: a border
  pixel is skipped; the band count is checked before use (\<open>BandRangeError\<close>); the nearest
  published centroid is found; the pixel is accumulated into the working centroid of the same
  position, and its distance into the running total of distances. A pass needs a seeded,
  non-empty published set (section 6: \<open>ConfigurationError\<close> before seeding) and a working set
  parallel to it (section 3; otherwise an internal inconsistency, \<open>ClusteringFailure\<close>).
\<close>

definition RSGISISODATACalcPixelClusterCalcImageVal_calcImageValue_impl ::
  "RSGISISODATACalcPixelClusterCalcImageVal \<Rightarrow> real list
     \<Rightarrow> ISODATAError + RSGISISODATACalcPixelClusterCalcImageVal" where
  "RSGISISODATACalcPixelClusterCalcImageVal_calcImageValue_impl this bandValues =
     (if isBorder bandValues then Inr this
      else if numImageBands this > length bandValues then Inl BandRangeError
      else case nearestCentroid bandValues (clusterCentres this) of
             None \<Rightarrow> Inl ConfigurationError
           | Some (minIdx, minDist) \<Rightarrow>
               if minIdx < length (newClusterCentres this)
               then Inr (this\<lparr>newClusterCentres :=
                                (newClusterCentres this)
                                  [minIdx := accumulate bandValues (newClusterCentres this ! minIdx)],
                              sumDist := sumDist this + minDist,
                              numVals := Suc (numVals this)\<rparr>)
               else Inl ClusteringFailure)"

text \<open>
  Modelled from the spec: one raster pass of the Accumulator, run by the image-iteration
  framework that is not among the sources. Sections 5 and 6: the visitor is called on every
  pixel in turn, one pass runs to completion before the next, and an error aborts the pass.
\<close>

fun accumulatorPass ::
  "RSGISISODATACalcPixelClusterCalcImageVal \<Rightarrow> real list list
     \<Rightarrow> ISODATAError + RSGISISODATACalcPixelClusterCalcImageVal" where
  "accumulatorPass this [] = Inr this"
| "accumulatorPass this (v # vs) =
     (case RSGISISODATACalcPixelClusterCalcImageVal_calcImageValue_impl this v of
        Inl e \<Rightarrow> Inl e
      | Inr this' \<Rightarrow> accumulatorPass this' vs)"

text \<open>
  Modelled from the spec: the Labeler's \<open>calcImageValue(float *bandValues, int numBands,
  float *output)\<close>, declared at line 120 of the header and defined in the missing file.
  Section 4.5: with \<open>ignoreZeros\<close> a border pixel gets the sentinel label 0 and no distance is
  computed; otherwise the nearest published centroid is found by the rule of section 4.2 and
  its cluster ID is the value of the single output band, which is the result here. Without
  centroids there is nothing to label (section 6: \<open>StateError\<close>). The argument \<open>centres\<close> is
  the visitor's member \<open>clusterCentres\<close>, the published set.
\<close>

definition RSGISApplyISODATAClassifierCalcImageVal_calcImageValue_impl ::
  "ClusterCentreISO list \<Rightarrow> bool \<Rightarrow> real list \<Rightarrow> ISODATAError + nat" where
  "RSGISApplyISODATAClassifierCalcImageVal_calcImageValue_impl centres ignoreZeros bandValues =
     (if ignoreZeros \<and> isBorder bandValues then Inr 0
      else case nearestCentroid bandValues centres of
             None \<Rightarrow> Inl StateError
           | Some (minIdx, minDist) \<Rightarrow> Inr (clusterID (centres ! minIdx)))"

text \<open>
  Modelled from the spec: the merge step of \<open>calcClusterCentres\<close>, whose body is missing.
  Section 4.4: for every pair of centroids, if the Euclidean distance between their means is
  below \<open>minDistanceBetweenCentres\<close>, the pair is merged into one centroid whose mean, standard
  deviation and count are the population-weighted combination; the pairwise checks are repeated
  until no pair qualifies, the lowest pair first. \<open>closePairs\<close> lists the qualifying pairs of
  positions in that order. The merged centroid takes the place and the ID of the first of the
  pair, and the second is removed from the set.
\<close>

definition closePairs :: "real \<Rightarrow> ClusterCentreISO list \<Rightarrow> (nat \<times> nat) list" where
  "closePairs minDistanceBetweenCentres cs =
     [(i, j). i \<leftarrow> [0..<length cs], j \<leftarrow> [Suc i..<length cs],
              euclideanDistance (mean (cs ! i)) (mean (cs ! j)) < minDistanceBetweenCentres]"

text \<open>
  Modelled from the spec: the population-weighted combination of two vectors (section 4.4),
  missing with the body of \<open>calcClusterCentres\<close>.
\<close>

definition weighted :: "nat \<Rightarrow> real list \<Rightarrow> nat \<Rightarrow> real list \<Rightarrow> real list" where
  "weighted n xs m ys = map2 (\<lambda>x y. (real n * x + real m * y) / real (n + m)) xs ys"

text \<open>
  Modelled from the spec: the centroid that replaces a merged pair (section 4.4), missing with
  the body of \<open>calcClusterCentres\<close>.
\<close>

definition mergePair :: "ClusterCentreISO \<Rightarrow> ClusterCentreISO \<Rightarrow> ClusterCentreISO" where
  "mergePair a b =
     \<lparr>clusterID = clusterID a,
      mean = weighted (population a) (mean a) (population b) (mean b),
      stddev = weighted (population a) (stddev a) (population b) (stddev b),
      population = population a + population b\<rparr>"

text \<open>
  Modelled from the spec: the merge loop (section 4.4), missing with the body of
  \<open>calcClusterCentres\<close>. It merges the first close pair and starts over, until no pair is
  close. Every merge removes one centroid, so the loop ends.
\<close>

function merge :: "real \<Rightarrow> ClusterCentreISO list \<Rightarrow> ClusterCentreISO list" where
  "merge minDistanceBetweenCentres cs =
     (case closePairs minDistanceBetweenCentres cs of
        [] \<Rightarrow> cs
      | (i, j) # _ \<Rightarrow>
          merge minDistanceBetweenCentres
            (take j (cs[i := mergePair (cs ! i) (cs ! j)])
             @ drop (Suc j) (cs[i := mergePair (cs ! i) (cs ! j)])))"
  by pat_completeness auto
termination
proof (relation "measure (\<lambda>(minDistanceBetweenCentres, cs). length cs)")
  show "wf (measure (\<lambda>(minDistanceBetweenCentres, cs). length cs))"
    by simp
next
  fix minDistanceBetweenCentres :: real and cs :: "ClusterCentreISO list"
    and p ps i j
  assume a: "closePairs minDistanceBetweenCentres cs = p # ps" and p: "(i, j) = p"
  have "(i, j) \<in> set (closePairs minDistanceBetweenCentres cs)"
    using a p by simp
  then have "j < length cs"
    by (auto simp: closePairs_def)
  then show "((minDistanceBetweenCentres,
               take j (cs[i := mergePair (cs ! i) (cs ! j)])
               @ drop (Suc j) (cs[i := mergePair (cs ! i) (cs ! j)])),
              (minDistanceBetweenCentres, cs))
             \<in> measure (\<lambda>(minDistanceBetweenCentres, cs). length cs)"
    by simp
qed

declare merge.simps [simp del]

section \<open>Properties of the calibration loop\<close>
text \<open>
  The loop consults the band numbers only through the outcome of the range check, and the
  formula only at the indices it visits.
\<close>

lemma forOutBands_cong:
  assumes "\<And>j. i \<le> j \<Longrightarrow> j < nOut \<Longrightarrow> (bandOf j > numBands) = (bandOf' j > numBands')"
    and "\<And>j. i \<le> j \<Longrightarrow> j < nOut \<Longrightarrow> formula j = formula' j"
  shows "forOutBands nOut bandOf numBands formula i out
         = forOutBands nOut bandOf' numBands' formula' i out"
  using assms
proof (induction nOut bandOf numBands formula i out rule: forOutBands.induct)
  case (1 nOut bandOf numBands formula i out)
  show ?case
  proof (cases "i < nOut")
    case False
    then show ?thesis
      by (simp add: forOutBands.simps [of nOut _ _ _ i])
  next
    case True
    have chk: "(bandOf i > numBands) = (bandOf' i > numBands')"
      using "1.prems"(1) [of i] True by simp
    have frm: "formula i = formula' i"
      using "1.prems"(2) [of i] True by simp
    show ?thesis
    proof (cases "bandOf i > numBands")
      case bad: True
      with chk True show ?thesis
        by (simp add: forOutBands.simps [of nOut _ _ _ i])
    next
      case ok: False
      have "forOutBands nOut bandOf numBands formula (Suc i) (out(i := formula i))
            = forOutBands nOut bandOf' numBands' formula' (Suc i) (out(i := formula i))"
      proof (rule "1.IH" [OF True ok])
        fix j assume "Suc i \<le> j" "j < nOut"
        then show "(numBands < bandOf j) = (numBands' < bandOf' j)"
          using "1.prems"(1) [of j] by simp
      next
        fix j assume "Suc i \<le> j" "j < nOut"
        then show "formula j = formula' j"
          using "1.prems"(2) [of j] by simp
      qed
      with ok chk True frm show ?thesis
        by (simp only: forOutBands.simps [of nOut _ _ _ i] if_True if_False)
    qed
  qed
qed

text \<open>
  Closed form of the loop. When the first entry at or after \<open>i\<close> whose band number exceeds
  \<open>numBands\<close> is \<open>i0\<close>, the loop throws there, having stored the formula at \<open>i, \<dots>, i0 - 1\<close>.
\<close>

lemma forOutBands_throw:
  assumes "i \<le> i0" and "i0 < nOut" and "bandOf i0 > numBands"
    and "\<And>j. i \<le> j \<Longrightarrow> j < i0 \<Longrightarrow> bandOf j \<le> numBands"
  shows "forOutBands nOut bandOf numBands formula i out
         = (Some bandRangeException, \<lambda>j. if i \<le> j \<and> j < i0 then formula j else out j)"
  using assms
proof (induction nOut bandOf numBands formula i out rule: forOutBands.induct)
  case (1 nOut bandOf numBands formula i out)
  show ?case
  proof (cases "i = i0")
    case True
    have "(\<lambda>j. if i0 \<le> j \<and> j < i0 then formula j else out j) = out"
      by (simp add: fun_eq_iff)
    with True "1.prems"(2,3) show ?thesis
      by (simp add: forOutBands.simps [of nOut _ _ _ i0])
  next
    case False
    with "1.prems"(1) have lt: "i < i0" by simp
    with "1.prems"(2) have inb: "i < nOut" by simp
    have ok: "\<not> bandOf i > numBands"
      using "1.prems"(4) [of i] lt by simp
    have "forOutBands nOut bandOf numBands formula (Suc i) (out(i := formula i))
          = (Some bandRangeException,
             \<lambda>j. if Suc i \<le> j \<and> j < i0 then formula j else (out(i := formula i)) j)"
    proof (rule "1.IH" [OF inb ok])
      show "Suc i \<le> i0" using lt by simp
      show "i0 < nOut" by (rule "1.prems"(2))
      show "numBands < bandOf i0" by (rule "1.prems"(3))
      fix j assume "Suc i \<le> j" "j < i0"
      then show "bandOf j \<le> numBands" using "1.prems"(4) [of j] by simp
    qed
    also have "(\<lambda>j. if Suc i \<le> j \<and> j < i0 then formula j else (out(i := formula i)) j)
               = (\<lambda>j. if i \<le> j \<and> j < i0 then formula j else out j)"
      using lt by (auto simp: fun_eq_iff)
    finally have step: "forOutBands nOut bandOf numBands formula (Suc i) (out(i := formula i))
          = (Some bandRangeException, \<lambda>j. if i \<le> j \<and> j < i0 then formula j else out j)" .
    have "forOutBands nOut bandOf numBands formula i out
          = forOutBands nOut bandOf numBands formula (Suc i) (out(i := formula i))"
      using inb ok by (simp only: forOutBands.simps [of nOut _ _ _ i] if_True if_False)
    with step show ?thesis by simp
  qed
qed

text \<open>
  When no entry at or after \<open>i\<close> fails the check, the loop stores the formula in every entry
  \<open>i, \<dots>, nOut - 1\<close> and returns normally.
\<close>

lemma forOutBands_ok:
  assumes "\<And>j. i \<le> j \<Longrightarrow> j < nOut \<Longrightarrow> bandOf j \<le> numBands"
  shows "forOutBands nOut bandOf numBands formula i out
         = (None, \<lambda>j. if i \<le> j \<and> j < nOut then formula j else out j)"
  using assms
proof (induction nOut bandOf numBands formula i out rule: forOutBands.induct)
  case (1 nOut bandOf numBands formula i out)
  show ?case
  proof (cases "i < nOut")
    case False
    then have "(\<lambda>j. if i \<le> j \<and> j < nOut then formula j else out j) = out"
      by (auto simp: fun_eq_iff)
    with False show ?thesis
      by (simp add: forOutBands.simps [of nOut _ _ _ i])
  next
    case True
    have ok: "\<not> bandOf i > numBands"
      using "1.prems" [of i] True by simp
    have "forOutBands nOut bandOf numBands formula (Suc i) (out(i := formula i))
          = (None, \<lambda>j. if Suc i \<le> j \<and> j < nOut then formula j else (out(i := formula i)) j)"
    proof (rule "1.IH" [OF True ok])
      fix j assume "Suc i \<le> j" "j < nOut"
      then show "bandOf j \<le> numBands" using "1.prems" [of j] by simp
    qed
    also have "(\<lambda>j. if Suc i \<le> j \<and> j < nOut then formula j else (out(i := formula i)) j)
               = (\<lambda>j. if i \<le> j \<and> j < nOut then formula j else out j)"
      using True by (auto simp: fun_eq_iff)
    finally have step: "forOutBands nOut bandOf numBands formula (Suc i) (out(i := formula i))
          = (None, \<lambda>j. if i \<le> j \<and> j < nOut then formula j else out j)" .
    have "forOutBands nOut bandOf numBands formula i out
          = forOutBands nOut bandOf numBands formula (Suc i) (out(i := formula i))"
      using True ok by (simp only: forOutBands.simps [of nOut _ _ _ i] if_True if_False)
    with step show ?thesis by simp
  qed
qed

text \<open>The zeroing loop writes 0 to the entries \<open>i, \<dots>, nOut - 1\<close> and to no other.\<close>

lemma zeroOutBands_eq:
  "zeroOutBands nOut i out = (\<lambda>j. if i \<le> j \<and> j < nOut then 0 else out j)"
proof (induction nOut i out rule: zeroOutBands.induct)
  case (1 nOut i out)
  show ?case
  proof (cases "i < nOut")
    case False
    then have "(\<lambda>j. if i \<le> j \<and> j < nOut then 0 else out j) = out"
      by (auto simp: fun_eq_iff)
    with False show ?thesis
      by (simp add: zeroOutBands.simps [of nOut i])
  next
    case True
    have "zeroOutBands nOut (Suc i) (out(i := 0))
          = (\<lambda>j. if Suc i \<le> j \<and> j < nOut then 0 else (out(i := 0)) j)"
      by (rule "1.IH" [OF True])
    also have "\<dots> = (\<lambda>j. if i \<le> j \<and> j < nOut then 0 else out j)"
      using True by (auto simp: fun_eq_iff)
    finally have step: "zeroOutBands nOut (Suc i) (out(i := 0))
          = (\<lambda>j. if i \<le> j \<and> j < nOut then 0 else out j)" .
    have "zeroOutBands nOut i out = zeroOutBands nOut (Suc i) (out(i := 0))"
      using True by (simp only: zeroOutBands.simps [of nOut i] if_True)
    with step show ?thesis by simp
  qed
qed


text \<open>If some entry below \<open>nOut\<close> fails the check, there is a first one.\<close>

lemma first_bad_band:
  assumes "(i::nat) < nOut" and "bandOf i > (numBands :: int)"
  shows "\<exists>i0<nOut. bandOf i0 > numBands \<and> (\<forall>j<i0. bandOf j \<le> numBands)"
proof -
  have "\<exists>n. bandOf n > numBands"
    using assms(2) by blast
  then obtain i0 where bad: "bandOf i0 > numBands" and least: "\<forall>m<i0. \<not> bandOf m > numBands"
    unfolding exists_least_iff [of "\<lambda>n. bandOf n > numBands"] by blast
  have "\<not> i < i0"
    using least assms(2) by blast
  then have "i0 < nOut"
    using assms(1) by simp
  moreover have "\<forall>j<i0. bandOf j \<le> numBands"
    using least by (simp add: not_less)
  ultimately show ?thesis
    using bad by blast
qed

text \<open>The two closed forms for a loop that starts at band 0.\<close>

lemma forOutBands_ok0:
  assumes "\<And>j. j < nOut \<Longrightarrow> bandOf j \<le> numBands"
  shows "forOutBands nOut bandOf numBands formula 0 out
         = (None, \<lambda>j. if j < nOut then formula j else out j)"
  using forOutBands_ok [of 0 nOut bandOf numBands formula out] assms by simp

lemma forOutBands_throw0:
  assumes "i0 < nOut" and "bandOf i0 > numBands"
    and "\<And>j. j < i0 \<Longrightarrow> bandOf j \<le> numBands"
  shows "forOutBands nOut bandOf numBands formula 0 out
         = (Some bandRangeException, \<lambda>j. if j < i0 then formula j else out j)"
  using forOutBands_throw [of 0 i0 nOut numBands bandOf formula out] assms by simp

text \<open>A float truncates to 0 exactly when it lies strictly between -1 and 1.\<close>

lemma float_to_int_zero_iff: "float_to_int x = 0 \<longleftrightarrow> -1 < x \<and> x < 1"
  unfolding float_to_int_def by (auto simp: floor_eq_iff ceiling_eq_iff)

subsection \<open>What each \<open>calcImageValue\<close> returns\<close>

text \<open>
  For each sensor: on a pixel whose table entries all pass the range check the call returns
  normally with the sensor's formula in every output band; when some entry fails, it throws at
  the first such entry \<open>i0\<close>, with the formula stored in the bands before \<open>i0\<close> and the
  rest of \<open>output\<close> as it was. The Landsat function does so on a pixel that is not a border
  pixel, and on a border pixel writes zeros without looking at the table.
\<close>

lemma Landsat_calcImageValue_border:
  assumes "float_to_int (bandValues 0) = 0"
  shows "RSGISLandsatRadianceCalibration_calcImageValue this bandValues numBands out
         = (None, \<lambda>j. if j < numOutBands this then 0 else out j)"
  using assms
  by (simp add: RSGISLandsatRadianceCalibration_calcImageValue_def zeroOutBands_eq)

lemma Landsat_calcImageValue_ok:
  assumes "float_to_int (bandValues 0) \<noteq> 0"
    and "\<And>i. i < numOutBands this \<Longrightarrow> LandsatRadianceGainsOffsets.band (radGainOff this i) \<le> numBands"
  shows "RSGISLandsatRadianceCalibration_calcImageValue this bandValues numBands out
         = (None, \<lambda>j. if j < numOutBands this
                       then (LandsatRadianceGainsOffsets.lMax (radGainOff this j) - LandsatRadianceGainsOffsets.lMin (radGainOff this j)) / (LandsatRadianceGainsOffsets.qCalMax (radGainOff this j) - LandsatRadianceGainsOffsets.qCalMin (radGainOff this j))
                  * (bandValues j - LandsatRadianceGainsOffsets.qCalMin (radGainOff this j)) + LandsatRadianceGainsOffsets.lMin (radGainOff this j)
                       else out j)"
  unfolding RSGISLandsatRadianceCalibration_calcImageValue_def Let_def if_not_P [OF assms(1)]
  by (rule forOutBands_ok0) (rule assms(2))

lemma Landsat_calcImageValue_throws:
  assumes "float_to_int (bandValues 0) \<noteq> 0"
    and "i < numOutBands this" and "LandsatRadianceGainsOffsets.band (radGainOff this i) > numBands"
  shows "\<exists>i0<numOutBands this. LandsatRadianceGainsOffsets.band (radGainOff this i0) > numBands
           \<and> (\<forall>j<i0. LandsatRadianceGainsOffsets.band (radGainOff this j) \<le> numBands)
           \<and> RSGISLandsatRadianceCalibration_calcImageValue this bandValues numBands out
               = (Some bandRangeException,
                  \<lambda>j. if j < i0
                      then (LandsatRadianceGainsOffsets.lMax (radGainOff this j) - LandsatRadianceGainsOffsets.lMin (radGainOff this j)) / (LandsatRadianceGainsOffsets.qCalMax (radGainOff this j) - LandsatRadianceGainsOffsets.qCalMin (radGainOff this j))
                  * (bandValues j - LandsatRadianceGainsOffsets.qCalMin (radGainOff this j)) + LandsatRadianceGainsOffsets.lMin (radGainOff this j)
                      else out j)"
proof -
  obtain i0 where i0: "i0 < numOutBands this" "LandsatRadianceGainsOffsets.band (radGainOff this i0) > numBands"
      "\<forall>j<i0. LandsatRadianceGainsOffsets.band (radGainOff this j) \<le> numBands"
    using first_bad_band [where i = i and nOut = "numOutBands this" and numBands = numBands
        and bandOf = "\<lambda>i. LandsatRadianceGainsOffsets.band (radGainOff this i)"]
      assms(2) assms(3) by blast
  have "RSGISLandsatRadianceCalibration_calcImageValue this bandValues numBands out
        = (Some bandRangeException,
           \<lambda>j. if j < i0
               then (LandsatRadianceGainsOffsets.lMax (radGainOff this j) - LandsatRadianceGainsOffsets.lMin (radGainOff this j)) / (LandsatRadianceGainsOffsets.qCalMax (radGainOff this j) - LandsatRadianceGainsOffsets.qCalMin (radGainOff this j))
                  * (bandValues j - LandsatRadianceGainsOffsets.qCalMin (radGainOff this j)) + LandsatRadianceGainsOffsets.lMin (radGainOff this j)
               else out j)"
    unfolding RSGISLandsatRadianceCalibration_calcImageValue_def Let_def if_not_P [OF assms(1)]
    by (rule forOutBands_throw0) (use i0 in simp_all)
  with i0 show ?thesis by blast
qed

lemma SPOT_calcImageValue_ok:
  assumes "\<And>i. i < numOutBands this \<Longrightarrow> SPOTRadianceGainsOffsets.band (radGainOff this i) \<le> numBands"
  shows "RSGISSPOTRadianceCalibration_calcImageValue this bandValues numBands out
         = (None, \<lambda>j. if j < numOutBands this
                       then bandValues j / SPOTRadianceGainsOffsets.gain (radGainOff this j)
                       else out j)"
  unfolding RSGISSPOTRadianceCalibration_calcImageValue_def Let_def
  by (rule forOutBands_ok0) (rule assms(1))

lemma SPOT_calcImageValue_throws:
  assumes "i < numOutBands this" and "SPOTRadianceGainsOffsets.band (radGainOff this i) > numBands"
  shows "\<exists>i0<numOutBands this. SPOTRadianceGainsOffsets.band (radGainOff this i0) > numBands
           \<and> (\<forall>j<i0. SPOTRadianceGainsOffsets.band (radGainOff this j) \<le> numBands)
           \<and> RSGISSPOTRadianceCalibration_calcImageValue this bandValues numBands out
               = (Some bandRangeException,
                  \<lambda>j. if j < i0
                      then bandValues j / SPOTRadianceGainsOffsets.gain (radGainOff this j)
                      else out j)"
proof -
  obtain i0 where i0: "i0 < numOutBands this" "SPOTRadianceGainsOffsets.band (radGainOff this i0) > numBands"
      "\<forall>j<i0. SPOTRadianceGainsOffsets.band (radGainOff this j) \<le> numBands"
    using first_bad_band [where i = i and nOut = "numOutBands this" and numBands = numBands
        and bandOf = "\<lambda>i. SPOTRadianceGainsOffsets.band (radGainOff this i)"]
      assms(1) assms(2) by blast
  have "RSGISSPOTRadianceCalibration_calcImageValue this bandValues numBands out
        = (Some bandRangeException,
           \<lambda>j. if j < i0
               then bandValues j / SPOTRadianceGainsOffsets.gain (radGainOff this j)
               else out j)"
    unfolding RSGISSPOTRadianceCalibration_calcImageValue_def Let_def
    by (rule forOutBands_throw0) (use i0 in simp_all)
  with i0 show ?thesis by blast
qed

lemma Ikonos_calcImageValue_ok:
  assumes "\<And>i. i < numOutBands this \<Longrightarrow> IkonosRadianceGainsOffsets.band (radGainOff this i) \<le> numBands"
  shows "RSGISIkonosRadianceCalibration_calcImageValue this bandValues numBands out
         = (None, \<lambda>j. if j < numOutBands this
                       then (100000 * bandValues j) / (IkonosRadianceGainsOffsets.calCoef (radGainOff this j) * IkonosRadianceGainsOffsets.bandwidth (radGainOff this j))
                       else out j)"
  unfolding RSGISIkonosRadianceCalibration_calcImageValue_def Let_def
  by (rule forOutBands_ok0) (rule assms(1))

lemma Ikonos_calcImageValue_throws:
  assumes "i < numOutBands this" and "IkonosRadianceGainsOffsets.band (radGainOff this i) > numBands"
  shows "\<exists>i0<numOutBands this. IkonosRadianceGainsOffsets.band (radGainOff this i0) > numBands
           \<and> (\<forall>j<i0. IkonosRadianceGainsOffsets.band (radGainOff this j) \<le> numBands)
           \<and> RSGISIkonosRadianceCalibration_calcImageValue this bandValues numBands out
               = (Some bandRangeException,
                  \<lambda>j. if j < i0
                      then (100000 * bandValues j) / (IkonosRadianceGainsOffsets.calCoef (radGainOff this j) * IkonosRadianceGainsOffsets.bandwidth (radGainOff this j))
                      else out j)"
proof -
  obtain i0 where i0: "i0 < numOutBands this" "IkonosRadianceGainsOffsets.band (radGainOff this i0) > numBands"
      "\<forall>j<i0. IkonosRadianceGainsOffsets.band (radGainOff this j) \<le> numBands"
    using first_bad_band [where i = i and nOut = "numOutBands this" and numBands = numBands
        and bandOf = "\<lambda>i. IkonosRadianceGainsOffsets.band (radGainOff this i)"]
      assms(1) assms(2) by blast
  have "RSGISIkonosRadianceCalibration_calcImageValue this bandValues numBands out
        = (Some bandRangeException,
           \<lambda>j. if j < i0
               then (100000 * bandValues j) / (IkonosRadianceGainsOffsets.calCoef (radGainOff this j) * IkonosRadianceGainsOffsets.bandwidth (radGainOff this j))
               else out j)"
    unfolding RSGISIkonosRadianceCalibration_calcImageValue_def Let_def
    by (rule forOutBands_throw0) (use i0 in simp_all)
  with i0 show ?thesis by blast
qed

lemma ASTER_calcImageValue_ok:
  assumes "\<And>i. i < numOutBands this \<Longrightarrow> ASTERRadianceGainsOffsets.band (radGainOff this i) \<le> numBands"
  shows "RSGISASTERRadianceCalibration_calcImageValue this bandValues numBands out
         = (None, \<lambda>j. if j < numOutBands this
                       then (bandValues j - 1) * ASTERRadianceGainsOffsets.unitConCoef (radGainOff this j)
                       else out j)"
  unfolding RSGISASTERRadianceCalibration_calcImageValue_def Let_def
  by (rule forOutBands_ok0) (rule assms(1))

lemma ASTER_calcImageValue_throws:
  assumes "i < numOutBands this" and "ASTERRadianceGainsOffsets.band (radGainOff this i) > numBands"
  shows "\<exists>i0<numOutBands this. ASTERRadianceGainsOffsets.band (radGainOff this i0) > numBands
           \<and> (\<forall>j<i0. ASTERRadianceGainsOffsets.band (radGainOff this j) \<le> numBands)
           \<and> RSGISASTERRadianceCalibration_calcImageValue this bandValues numBands out
               = (Some bandRangeException,
                  \<lambda>j. if j < i0
                      then (bandValues j - 1) * ASTERRadianceGainsOffsets.unitConCoef (radGainOff this j)
                      else out j)"
proof -
  obtain i0 where i0: "i0 < numOutBands this" "ASTERRadianceGainsOffsets.band (radGainOff this i0) > numBands"
      "\<forall>j<i0. ASTERRadianceGainsOffsets.band (radGainOff this j) \<le> numBands"
    using first_bad_band [where i = i and nOut = "numOutBands this" and numBands = numBands
        and bandOf = "\<lambda>i. ASTERRadianceGainsOffsets.band (radGainOff this i)"]
      assms(1) assms(2) by blast
  have "RSGISASTERRadianceCalibration_calcImageValue this bandValues numBands out
        = (Some bandRangeException,
           \<lambda>j. if j < i0
               then (bandValues j - 1) * ASTERRadianceGainsOffsets.unitConCoef (radGainOff this j)
               else out j)"
    unfolding RSGISASTERRadianceCalibration_calcImageValue_def Let_def
    by (rule forOutBands_throw0) (use i0 in simp_all)
  with i0 show ?thesis by blast
qed

lemma IRS_calcImageValue_ok:
  assumes "\<And>i. i < numOutBands this \<Longrightarrow> IRSRadianceGainsOffsets.band (radGainOff this i) \<le> numBands"
  shows "RSGISIRSRadianceCalibration_calcImageValue this bandValues numBands out
         = (None, \<lambda>j. if j < numOutBands this
                       then (IRSRadianceGainsOffsets.lMax (radGainOff this j) - IRSRadianceGainsOffsets.lMin (radGainOff this j)) / (IRSRadianceGainsOffsets.qCalMax (radGainOff this j) - IRSRadianceGainsOffsets.qCalMin (radGainOff this j))
                  * (bandValues j - IRSRadianceGainsOffsets.qCalMin (radGainOff this j)) + IRSRadianceGainsOffsets.lMin (radGainOff this j)
                       else out j)"
  unfolding RSGISIRSRadianceCalibration_calcImageValue_def Let_def
  by (rule forOutBands_ok0) (rule assms(1))

lemma IRS_calcImageValue_throws:
  assumes "i < numOutBands this" and "IRSRadianceGainsOffsets.band (radGainOff this i) > numBands"
  shows "\<exists>i0<numOutBands this. IRSRadianceGainsOffsets.band (radGainOff this i0) > numBands
           \<and> (\<forall>j<i0. IRSRadianceGainsOffsets.band (radGainOff this j) \<le> numBands)
           \<and> RSGISIRSRadianceCalibration_calcImageValue this bandValues numBands out
               = (Some bandRangeException,
                  \<lambda>j. if j < i0
                      then (IRSRadianceGainsOffsets.lMax (radGainOff this j) - IRSRadianceGainsOffsets.lMin (radGainOff this j)) / (IRSRadianceGainsOffsets.qCalMax (radGainOff this j) - IRSRadianceGainsOffsets.qCalMin (radGainOff this j))
                  * (bandValues j - IRSRadianceGainsOffsets.qCalMin (radGainOff this j)) + IRSRadianceGainsOffsets.lMin (radGainOff this j)
                      else out j)"
proof -
  obtain i0 where i0: "i0 < numOutBands this" "IRSRadianceGainsOffsets.band (radGainOff this i0) > numBands"
      "\<forall>j<i0. IRSRadianceGainsOffsets.band (radGainOff this j) \<le> numBands"
    using first_bad_band [where i = i and nOut = "numOutBands this" and numBands = numBands
        and bandOf = "\<lambda>i. IRSRadianceGainsOffsets.band (radGainOff this i)"]
      assms(1) assms(2) by blast
  have "RSGISIRSRadianceCalibration_calcImageValue this bandValues numBands out
        = (Some bandRangeException,
           \<lambda>j. if j < i0
               then (IRSRadianceGainsOffsets.lMax (radGainOff this j) - IRSRadianceGainsOffsets.lMin (radGainOff this j)) / (IRSRadianceGainsOffsets.qCalMax (radGainOff this j) - IRSRadianceGainsOffsets.qCalMin (radGainOff this j))
                  * (bandValues j - IRSRadianceGainsOffsets.qCalMin (radGainOff this j)) + IRSRadianceGainsOffsets.lMin (radGainOff this j)
               else out j)"
    unfolding RSGISIRSRadianceCalibration_calcImageValue_def Let_def
    by (rule forOutBands_throw0) (use i0 in simp_all)
  with i0 show ?thesis by blast
qed

lemma Quickbird16bit_calcImageValue_ok:
  assumes "\<And>i. i < numOutBands this \<Longrightarrow> Quickbird16bitRadianceGainsOffsets.band (radGainOff this i) \<le> numBands"
  shows "RSGISQuickbird16bitRadianceCalibration_calcImageValue this bandValues numBands out
         = (None, \<lambda>j. if j < numOutBands this
                       then (bandValues j * Quickbird16bitRadianceGainsOffsets.calFactor (radGainOff this j)) / Quickbird16bitRadianceGainsOffsets.bandIntegrate (radGainOff this j)
                       else out j)"
  unfolding RSGISQuickbird16bitRadianceCalibration_calcImageValue_def Let_def
  by (rule forOutBands_ok0) (rule assms(1))

lemma Quickbird16bit_calcImageValue_throws:
  assumes "i < numOutBands this" and "Quickbird16bitRadianceGainsOffsets.band (radGainOff this i) > numBands"
  shows "\<exists>i0<numOutBands this. Quickbird16bitRadianceGainsOffsets.band (radGainOff this i0) > numBands
           \<and> (\<forall>j<i0. Quickbird16bitRadianceGainsOffsets.band (radGainOff this j) \<le> numBands)
           \<and> RSGISQuickbird16bitRadianceCalibration_calcImageValue this bandValues numBands out
               = (Some bandRangeException,
                  \<lambda>j. if j < i0
                      then (bandValues j * Quickbird16bitRadianceGainsOffsets.calFactor (radGainOff this j)) / Quickbird16bitRadianceGainsOffsets.bandIntegrate (radGainOff this j)
                      else out j)"
proof -
  obtain i0 where i0: "i0 < numOutBands this" "Quickbird16bitRadianceGainsOffsets.band (radGainOff this i0) > numBands"
      "\<forall>j<i0. Quickbird16bitRadianceGainsOffsets.band (radGainOff this j) \<le> numBands"
    using first_bad_band [where i = i and nOut = "numOutBands this" and numBands = numBands
        and bandOf = "\<lambda>i. Quickbird16bitRadianceGainsOffsets.band (radGainOff this i)"]
      assms(1) assms(2) by blast
  have "RSGISQuickbird16bitRadianceCalibration_calcImageValue this bandValues numBands out
        = (Some bandRangeException,
           \<lambda>j. if j < i0
               then (bandValues j * Quickbird16bitRadianceGainsOffsets.calFactor (radGainOff this j)) / Quickbird16bitRadianceGainsOffsets.bandIntegrate (radGainOff this j)
               else out j)"
    unfolding RSGISQuickbird16bitRadianceCalibration_calcImageValue_def Let_def
    by (rule forOutBands_throw0) (use i0 in simp_all)
  with i0 show ?thesis by blast
qed

lemma Quickbird8bit_calcImageValue_ok:
  assumes "\<And>i. i < numOutBands this \<Longrightarrow> Quickbird8bitRadianceGainsOffsets.band (radGainOff this i) \<le> numBands"
  shows "RSGISQuickbird8bitRadianceCalibration_calcImageValue this bandValues numBands out
         = (None, \<lambda>j. if j < numOutBands this
                       then (bandValues j * Quickbird8bitRadianceGainsOffsets.calFactor (radGainOff this j) * Quickbird8bitRadianceGainsOffsets.k (radGainOff this j)) / Quickbird8bitRadianceGainsOffsets.bandIntegrate (radGainOff this j)
                       else out j)"
  unfolding RSGISQuickbird8bitRadianceCalibration_calcImageValue_def Let_def
  by (rule forOutBands_ok0) (rule assms(1))

lemma Quickbird8bit_calcImageValue_throws:
  assumes "i < numOutBands this" and "Quickbird8bitRadianceGainsOffsets.band (radGainOff this i) > numBands"
  shows "\<exists>i0<numOutBands this. Quickbird8bitRadianceGainsOffsets.band (radGainOff this i0) > numBands
           \<and> (\<forall>j<i0. Quickbird8bitRadianceGainsOffsets.band (radGainOff this j) \<le> numBands)
           \<and> RSGISQuickbird8bitRadianceCalibration_calcImageValue this bandValues numBands out
               = (Some bandRangeException,
                  \<lambda>j. if j < i0
                      then (bandValues j * Quickbird8bitRadianceGainsOffsets.calFactor (radGainOff this j) * Quickbird8bitRadianceGainsOffsets.k (radGainOff this j)) / Quickbird8bitRadianceGainsOffsets.bandIntegrate (radGainOff this j)
                      else out j)"
proof -
  obtain i0 where i0: "i0 < numOutBands this" "Quickbird8bitRadianceGainsOffsets.band (radGainOff this i0) > numBands"
      "\<forall>j<i0. Quickbird8bitRadianceGainsOffsets.band (radGainOff this j) \<le> numBands"
    using first_bad_band [where i = i and nOut = "numOutBands this" and numBands = numBands
        and bandOf = "\<lambda>i. Quickbird8bitRadianceGainsOffsets.band (radGainOff this i)"]
      assms(1) assms(2) by blast
  have "RSGISQuickbird8bitRadianceCalibration_calcImageValue this bandValues numBands out
        = (Some bandRangeException,
           \<lambda>j. if j < i0
               then (bandValues j * Quickbird8bitRadianceGainsOffsets.calFactor (radGainOff this j) * Quickbird8bitRadianceGainsOffsets.k (radGainOff this j)) / Quickbird8bitRadianceGainsOffsets.bandIntegrate (radGainOff this j)
               else out j)"
    unfolding RSGISQuickbird8bitRadianceCalibration_calcImageValue_def Let_def
    by (rule forOutBands_throw0) (use i0 in simp_all)
  with i0 show ?thesis by blast
qed

lemma WorldView2_calcImageValue_ok:
  assumes "\<And>i. i < numOutBands this \<Longrightarrow> WorldView2RadianceGainsOffsets.band (radGainOff this i) \<le> numBands"
  shows "RSGISWorldView2RadianceCalibration_calcImageValue this bandValues numBands out
         = (None, \<lambda>j. if j < numOutBands this
                       then (WorldView2RadianceGainsOffsets.calFactor (radGainOff this j) * bandValues j) / WorldView2RadianceGainsOffsets.bandIntegrate (radGainOff this j)
                       else out j)"
  unfolding RSGISWorldView2RadianceCalibration_calcImageValue_def Let_def
  by (rule forOutBands_ok0) (rule assms(1))

lemma WorldView2_calcImageValue_throws:
  assumes "i < numOutBands this" and "WorldView2RadianceGainsOffsets.band (radGainOff this i) > numBands"
  shows "\<exists>i0<numOutBands this. WorldView2RadianceGainsOffsets.band (radGainOff this i0) > numBands
           \<and> (\<forall>j<i0. WorldView2RadianceGainsOffsets.band (radGainOff this j) \<le> numBands)
           \<and> RSGISWorldView2RadianceCalibration_calcImageValue this bandValues numBands out
               = (Some bandRangeException,
                  \<lambda>j. if j < i0
                      then (WorldView2RadianceGainsOffsets.calFactor (radGainOff this j) * bandValues j) / WorldView2RadianceGainsOffsets.bandIntegrate (radGainOff this j)
                      else out j)"
proof -
  obtain i0 where i0: "i0 < numOutBands this" "WorldView2RadianceGainsOffsets.band (radGainOff this i0) > numBands"
      "\<forall>j<i0. WorldView2RadianceGainsOffsets.band (radGainOff this j) \<le> numBands"
    using first_bad_band [where i = i and nOut = "numOutBands this" and numBands = numBands
        and bandOf = "\<lambda>i. WorldView2RadianceGainsOffsets.band (radGainOff this i)"]
      assms(1) assms(2) by blast
  have "RSGISWorldView2RadianceCalibration_calcImageValue this bandValues numBands out
        = (Some bandRangeException,
           \<lambda>j. if j < i0
               then (WorldView2RadianceGainsOffsets.calFactor (radGainOff this j) * bandValues j) / WorldView2RadianceGainsOffsets.bandIntegrate (radGainOff this j)
               else out j)"
    unfolding RSGISWorldView2RadianceCalibration_calcImageValue_def Let_def
    by (rule forOutBands_throw0) (use i0 in simp_all)
  with i0 show ?thesis by blast
qed

subsection \<open>The band number reaches the result only through the range check\<close>









section \<open>Claims about the calibration functions\<close>

text \<open>
  Claim C8. With the same band number, \<open>calFactor\<close> and \<open>bandIntegrate\<close> in every table entry
  below \<open>numOutBands\<close>, the WorldView2 and the Quickbird 16-bit \<open>calcImageValue\<close> give the
  same result on every pixel, band count and output array: the same exception or none, and the
  same contents of \<open>output\<close>. The two formulas differ only in the order of the factors
  of one product.
\<close>

theorem WorldView2_equals_Quickbird16bit:
  assumes "numOutBands wv = numOutBands qb"
    and "\<forall>i<numOutBands qb.
           WorldView2RadianceGainsOffsets.band (radGainOff wv i)
             = Quickbird16bitRadianceGainsOffsets.band (radGainOff qb i)
         \<and> WorldView2RadianceGainsOffsets.calFactor (radGainOff wv i)
             = Quickbird16bitRadianceGainsOffsets.calFactor (radGainOff qb i)
         \<and> WorldView2RadianceGainsOffsets.bandIntegrate (radGainOff wv i)
             = Quickbird16bitRadianceGainsOffsets.bandIntegrate (radGainOff qb i)"
  shows "RSGISWorldView2RadianceCalibration_calcImageValue wv bandValues numBands output
         = RSGISQuickbird16bitRadianceCalibration_calcImageValue qb bandValues numBands output"
  unfolding RSGISWorldView2RadianceCalibration_calcImageValue_def
    RSGISQuickbird16bitRadianceCalibration_calcImageValue_def assms(1)
proof (rule forOutBands_cong)
  fix j assume "j < numOutBands qb"
  with assms(2) show
    "(numBands < WorldView2RadianceGainsOffsets.band (radGainOff wv j))
     = (numBands < Quickbird16bitRadianceGainsOffsets.band (radGainOff qb j))"
    by simp
next
  fix j assume "j < numOutBands qb"
  with assms(2) show
    "WorldView2RadianceGainsOffsets.calFactor (radGainOff wv j) * bandValues j
       / WorldView2RadianceGainsOffsets.bandIntegrate (radGainOff wv j)
     = bandValues j * Quickbird16bitRadianceGainsOffsets.calFactor (radGainOff qb j)
       / Quickbird16bitRadianceGainsOffsets.bandIntegrate (radGainOff qb j)"
    by (simp add: mult.commute)
qed

text \<open>The theorem at a two-band table whose second band number is out of range.\<close>

theorem WorldView2_equals_Quickbird16bit_witness:
  "RSGISWorldView2RadianceCalibration_calcImageValue
     \<lparr>numOutBands = 2,
      radGainOff = (\<lambda>i. \<lparr>WorldView2RadianceGainsOffsets.band = 1, calFactor = 3, bandIntegrate = 2\<rparr>)
                   (1 := \<lparr>WorldView2RadianceGainsOffsets.band = 5, calFactor = 7, bandIntegrate = 4\<rparr>)\<rparr>
     (\<lambda>i. 8) 3 (\<lambda>i. 0)
   = RSGISQuickbird16bitRadianceCalibration_calcImageValue
     \<lparr>numOutBands = 2,
      radGainOff = (\<lambda>i. \<lparr>Quickbird16bitRadianceGainsOffsets.band = 1, calFactor = 3, bandIntegrate = 2\<rparr>)
                   (1 := \<lparr>Quickbird16bitRadianceGainsOffsets.band = 5, calFactor = 7, bandIntegrate = 4\<rparr>)\<rparr>
     (\<lambda>i. 8) 3 (\<lambda>i. 0)"
  by (rule WorldView2_equals_Quickbird16bit) (simp_all add: less_Suc_eq numeral_2_eq_2)



text \<open>
  Claim C1, as amended. The claim says that a call with a band number above \<open>numBands\<close> raises
  the band-range exception before any output value is written. The code checks the band
  number of entry \<open>i\<close> inside the loop, just before it writes \<open>output[i]\<close>, so what holds is:
  for each of the eight sensors, when some entry below \<open>numOutBands\<close> has a band number above
  \<open>numBands\<close> (and, for Landsat, the pixel is not a border pixel), the call throws the
  band-range exception at the first such entry \<open>i0\<close>; the output bands before \<open>i0\<close> hold the
  sensor's formula, and the bands from \<open>i0\<close> on are as they were. On a border pixel the
  Landsat function checks nothing: it writes zeros and returns normally.
\<close>

theorem band_range_exception_at_first_bad_band:
  "(float_to_int (bandValues 0) = 0
    \<longrightarrow> RSGISLandsatRadianceCalibration_calcImageValue landsat bandValues numBands out
        = (None, \<lambda>j. if j < numOutBands landsat then 0 else out j)) \<and>
   (float_to_int (bandValues 0) \<noteq> 0 \<and> (\<exists>i<numOutBands landsat. LandsatRadianceGainsOffsets.band (radGainOff landsat i) > numBands)
    \<longrightarrow> (\<exists>i0<numOutBands landsat. LandsatRadianceGainsOffsets.band (radGainOff landsat i0) > numBands
           \<and> (\<forall>j<i0. LandsatRadianceGainsOffsets.band (radGainOff landsat j) \<le> numBands)
           \<and> RSGISLandsatRadianceCalibration_calcImageValue landsat bandValues numBands out
               = (Some bandRangeException,
                  \<lambda>j. if j < i0
                      then (LandsatRadianceGainsOffsets.lMax (radGainOff landsat j) - LandsatRadianceGainsOffsets.lMin (radGainOff landsat j)) / (LandsatRadianceGainsOffsets.qCalMax (radGainOff landsat j) - LandsatRadianceGainsOffsets.qCalMin (radGainOff landsat j))
                  * (bandValues j - LandsatRadianceGainsOffsets.qCalMin (radGainOff landsat j)) + LandsatRadianceGainsOffsets.lMin (radGainOff landsat j)
                      else out j))) \<and>
   ((\<exists>i<numOutBands spot. SPOTRadianceGainsOffsets.band (radGainOff spot i) > numBands)
    \<longrightarrow> (\<exists>i0<numOutBands spot. SPOTRadianceGainsOffsets.band (radGainOff spot i0) > numBands
           \<and> (\<forall>j<i0. SPOTRadianceGainsOffsets.band (radGainOff spot j) \<le> numBands)
           \<and> RSGISSPOTRadianceCalibration_calcImageValue spot bandValues numBands out
               = (Some bandRangeException,
                  \<lambda>j. if j < i0
                      then bandValues j / SPOTRadianceGainsOffsets.gain (radGainOff spot j)
                      else out j))) \<and>
   ((\<exists>i<numOutBands ikonos. IkonosRadianceGainsOffsets.band (radGainOff ikonos i) > numBands)
    \<longrightarrow> (\<exists>i0<numOutBands ikonos. IkonosRadianceGainsOffsets.band (radGainOff ikonos i0) > numBands
           \<and> (\<forall>j<i0. IkonosRadianceGainsOffsets.band (radGainOff ikonos j) \<le> numBands)
           \<and> RSGISIkonosRadianceCalibration_calcImageValue ikonos bandValues numBands out
               = (Some bandRangeException,
                  \<lambda>j. if j < i0
                      then (100000 * bandValues j) / (IkonosRadianceGainsOffsets.calCoef (radGainOff ikonos j) * IkonosRadianceGainsOffsets.bandwidth (radGainOff ikonos j))
                      else out j))) \<and>
   ((\<exists>i<numOutBands aster. ASTERRadianceGainsOffsets.band (radGainOff aster i) > numBands)
    \<longrightarrow> (\<exists>i0<numOutBands aster. ASTERRadianceGainsOffsets.band (radGainOff aster i0) > numBands
           \<and> (\<forall>j<i0. ASTERRadianceGainsOffsets.band (radGainOff aster j) \<le> numBands)
           \<and> RSGISASTERRadianceCalibration_calcImageValue aster bandValues numBands out
               = (Some bandRangeException,
                  \<lambda>j. if j < i0
                      then (bandValues j - 1) * ASTERRadianceGainsOffsets.unitConCoef (radGainOff aster j)
                      else out j))) \<and>
   ((\<exists>i<numOutBands irs. IRSRadianceGainsOffsets.band (radGainOff irs i) > numBands)
    \<longrightarrow> (\<exists>i0<numOutBands irs. IRSRadianceGainsOffsets.band (radGainOff irs i0) > numBands
           \<and> (\<forall>j<i0. IRSRadianceGainsOffsets.band (radGainOff irs j) \<le> numBands)
           \<and> RSGISIRSRadianceCalibration_calcImageValue irs bandValues numBands out
               = (Some bandRangeException,
                  \<lambda>j. if j < i0
                      then (IRSRadianceGainsOffsets.lMax (radGainOff irs j) - IRSRadianceGainsOffsets.lMin (radGainOff irs j)) / (IRSRadianceGainsOffsets.qCalMax (radGainOff irs j) - IRSRadianceGainsOffsets.qCalMin (radGainOff irs j))
                  * (bandValues j - IRSRadianceGainsOffsets.qCalMin (radGainOff irs j)) + IRSRadianceGainsOffsets.lMin (radGainOff irs j)
                      else out j))) \<and>
   ((\<exists>i<numOutBands qb16bit. Quickbird16bitRadianceGainsOffsets.band (radGainOff qb16bit i) > numBands)
    \<longrightarrow> (\<exists>i0<numOutBands qb16bit. Quickbird16bitRadianceGainsOffsets.band (radGainOff qb16bit i0) > numBands
           \<and> (\<forall>j<i0. Quickbird16bitRadianceGainsOffsets.band (radGainOff qb16bit j) \<le> numBands)
           \<and> RSGISQuickbird16bitRadianceCalibration_calcImageValue qb16bit bandValues numBands out
               = (Some bandRangeException,
                  \<lambda>j. if j < i0
                      then (bandValues j * Quickbird16bitRadianceGainsOffsets.calFactor (radGainOff qb16bit j)) / Quickbird16bitRadianceGainsOffsets.bandIntegrate (radGainOff qb16bit j)
                      else out j))) \<and>
   ((\<exists>i<numOutBands qb8bit. Quickbird8bitRadianceGainsOffsets.band (radGainOff qb8bit i) > numBands)
    \<longrightarrow> (\<exists>i0<numOutBands qb8bit. Quickbird8bitRadianceGainsOffsets.band (radGainOff qb8bit i0) > numBands
           \<and> (\<forall>j<i0. Quickbird8bitRadianceGainsOffsets.band (radGainOff qb8bit j) \<le> numBands)
           \<and> RSGISQuickbird8bitRadianceCalibration_calcImageValue qb8bit bandValues numBands out
               = (Some bandRangeException,
                  \<lambda>j. if j < i0
                      then (bandValues j * Quickbird8bitRadianceGainsOffsets.calFactor (radGainOff qb8bit j) * Quickbird8bitRadianceGainsOffsets.k (radGainOff qb8bit j)) / Quickbird8bitRadianceGainsOffsets.bandIntegrate (radGainOff qb8bit j)
                      else out j))) \<and>
   ((\<exists>i<numOutBands worldView. WorldView2RadianceGainsOffsets.band (radGainOff worldView i) > numBands)
    \<longrightarrow> (\<exists>i0<numOutBands worldView. WorldView2RadianceGainsOffsets.band (radGainOff worldView i0) > numBands
           \<and> (\<forall>j<i0. WorldView2RadianceGainsOffsets.band (radGainOff worldView j) \<le> numBands)
           \<and> RSGISWorldView2RadianceCalibration_calcImageValue worldView bandValues numBands out
               = (Some bandRangeException,
                  \<lambda>j. if j < i0
                      then (WorldView2RadianceGainsOffsets.calFactor (radGainOff worldView j) * bandValues j) / WorldView2RadianceGainsOffsets.bandIntegrate (radGainOff worldView j)
                      else out j)))"
  by (intro conjI impI; (elim conjE exE)?)
    (rule Landsat_calcImageValue_border Landsat_calcImageValue_throws SPOT_calcImageValue_throws
       Ikonos_calcImageValue_throws ASTER_calcImageValue_throws IRS_calcImageValue_throws
       Quickbird16bit_calcImageValue_throws Quickbird8bit_calcImageValue_throws
       WorldView2_calcImageValue_throws; assumption)+

text \<open>
  The claim as stated fails. With band numbers 1 and 5 and 3 input bands, the SPOT function
  throws at the second band after it has stored 8 / 2 = 4 in \<open>output[0]\<close>, which held 0. And
  the Landsat function, on a border pixel, does not throw although the band number 5 exceeds
  3; it overwrites \<open>output[0]\<close>, which held 7, with 0.
\<close>

theorem output_written_before_band_range_exception:
  "fst (RSGISSPOTRadianceCalibration_calcImageValue
          \<lparr>numOutBands = 2,
           radGainOff = (\<lambda>i. \<lparr>SPOTRadianceGainsOffsets.band = 1, gain = 2\<rparr>)
                        (1 := \<lparr>SPOTRadianceGainsOffsets.band = 5, gain = 2\<rparr>)\<rparr>
          (\<lambda>i. 8) 3 (\<lambda>i. 0)) = Some bandRangeException
   \<and> snd (RSGISSPOTRadianceCalibration_calcImageValue
          \<lparr>numOutBands = 2,
           radGainOff = (\<lambda>i. \<lparr>SPOTRadianceGainsOffsets.band = 1, gain = 2\<rparr>)
                        (1 := \<lparr>SPOTRadianceGainsOffsets.band = 5, gain = 2\<rparr>)\<rparr>
          (\<lambda>i. 8) 3 (\<lambda>i. 0)) 0 = 4
   \<and> fst (RSGISLandsatRadianceCalibration_calcImageValue
          \<lparr>numOutBands = 1,
           radGainOff = \<lambda>i. \<lparr>LandsatRadianceGainsOffsets.band = 5, lMax = 10, lMin = 0,
                                qCalMax = 5, qCalMin = 0\<rparr>\<rparr>
          (\<lambda>i. 0) 3 (\<lambda>i. 7)) = None
   \<and> snd (RSGISLandsatRadianceCalibration_calcImageValue
          \<lparr>numOutBands = 1,
           radGainOff = \<lambda>i. \<lparr>LandsatRadianceGainsOffsets.band = 5, lMax = 10, lMin = 0,
                                qCalMax = 5, qCalMin = 0\<rparr>\<rparr>
          (\<lambda>i. 0) 3 (\<lambda>i. 7)) 0 = 0"
  by (simp add: RSGISSPOTRadianceCalibration_calcImageValue_def
      RSGISLandsatRadianceCalibration_calcImageValue_def float_to_int_def
      forOutBands.simps zeroOutBands.simps)

text \<open>The theorem at two-band tables whose second band number is 5, with 3 input bands: a
  border pixel for the first conjunct, a pixel of value 8 for the others.\<close>

theorem band_range_exception_at_first_bad_band_witness:
  "RSGISLandsatRadianceCalibration_calcImageValue
       \<lparr>numOutBands = 2,
        radGainOff = (\<lambda>i. \<lparr>LandsatRadianceGainsOffsets.band = 1, lMax = 10, lMin = 0, qCalMax = 5, qCalMin = 0\<rparr>)
                     (1 := \<lparr>LandsatRadianceGainsOffsets.band = 5, lMax = 10, lMin = 0, qCalMax = 5, qCalMin = 0\<rparr>)\<rparr>
       (\<lambda>i. 0) 3 (\<lambda>i. 7)
     = (None, \<lambda>j. if j < 2 then 0 else 7) \<and>
   fst (RSGISLandsatRadianceCalibration_calcImageValue
       \<lparr>numOutBands = 2,
        radGainOff = (\<lambda>i. \<lparr>LandsatRadianceGainsOffsets.band = 1, lMax = 10, lMin = 0, qCalMax = 5, qCalMin = 0\<rparr>)
                     (1 := \<lparr>LandsatRadianceGainsOffsets.band = 5, lMax = 10, lMin = 0, qCalMax = 5, qCalMin = 0\<rparr>)\<rparr>
       (\<lambda>i. 8) 3 (\<lambda>i. 7)) = Some bandRangeException \<and>
   fst (RSGISSPOTRadianceCalibration_calcImageValue
       \<lparr>numOutBands = 2,
        radGainOff = (\<lambda>i. \<lparr>SPOTRadianceGainsOffsets.band = 1, gain = 2\<rparr>)
                     (1 := \<lparr>SPOTRadianceGainsOffsets.band = 5, gain = 2\<rparr>)\<rparr>
       (\<lambda>i. 8) 3 (\<lambda>i. 7)) = Some bandRangeException \<and>
   fst (RSGISIkonosRadianceCalibration_calcImageValue
       \<lparr>numOutBands = 2,
        radGainOff = (\<lambda>i. \<lparr>IkonosRadianceGainsOffsets.band = 1, calCoef = 2, bandwidth = 5\<rparr>)
                     (1 := \<lparr>IkonosRadianceGainsOffsets.band = 5, calCoef = 2, bandwidth = 5\<rparr>)\<rparr>
       (\<lambda>i. 8) 3 (\<lambda>i. 7)) = Some bandRangeException \<and>
   fst (RSGISASTERRadianceCalibration_calcImageValue
       \<lparr>numOutBands = 2,
        radGainOff = (\<lambda>i. \<lparr>ASTERRadianceGainsOffsets.band = 1, unitConCoef = 3\<rparr>)
                     (1 := \<lparr>ASTERRadianceGainsOffsets.band = 5, unitConCoef = 3\<rparr>)\<rparr>
       (\<lambda>i. 8) 3 (\<lambda>i. 7)) = Some bandRangeException \<and>
   fst (RSGISIRSRadianceCalibration_calcImageValue
       \<lparr>numOutBands = 2,
        radGainOff = (\<lambda>i. \<lparr>IRSRadianceGainsOffsets.band = 1, lMax = 10, lMin = 0, qCalMax = 5, qCalMin = 0\<rparr>)
                     (1 := \<lparr>IRSRadianceGainsOffsets.band = 5, lMax = 10, lMin = 0, qCalMax = 5, qCalMin = 0\<rparr>)\<rparr>
       (\<lambda>i. 8) 3 (\<lambda>i. 7)) = Some bandRangeException \<and>
   fst (RSGISQuickbird16bitRadianceCalibration_calcImageValue
       \<lparr>numOutBands = 2,
        radGainOff = (\<lambda>i. \<lparr>Quickbird16bitRadianceGainsOffsets.band = 1, calFactor = 3, bandIntegrate = 2\<rparr>)
                     (1 := \<lparr>Quickbird16bitRadianceGainsOffsets.band = 5, calFactor = 3, bandIntegrate = 2\<rparr>)\<rparr>
       (\<lambda>i. 8) 3 (\<lambda>i. 7)) = Some bandRangeException \<and>
   fst (RSGISQuickbird8bitRadianceCalibration_calcImageValue
       \<lparr>numOutBands = 2,
        radGainOff = (\<lambda>i. \<lparr>Quickbird8bitRadianceGainsOffsets.band = 1, calFactor = 3, k = 5, bandIntegrate = 2\<rparr>)
                     (1 := \<lparr>Quickbird8bitRadianceGainsOffsets.band = 5, calFactor = 3, k = 5, bandIntegrate = 2\<rparr>)\<rparr>
       (\<lambda>i. 8) 3 (\<lambda>i. 7)) = Some bandRangeException \<and>
   fst (RSGISWorldView2RadianceCalibration_calcImageValue
       \<lparr>numOutBands = 2,
        radGainOff = (\<lambda>i. \<lparr>WorldView2RadianceGainsOffsets.band = 1, calFactor = 3, bandIntegrate = 2\<rparr>)
                     (1 := \<lparr>WorldView2RadianceGainsOffsets.band = 5, calFactor = 3, bandIntegrate = 2\<rparr>)\<rparr>
       (\<lambda>i. 8) 3 (\<lambda>i. 7)) = Some bandRangeException"
proof -
  have border: "RSGISLandsatRadianceCalibration_calcImageValue
       \<lparr>numOutBands = 2,
        radGainOff = (\<lambda>i. \<lparr>LandsatRadianceGainsOffsets.band = 1, lMax = 10, lMin = 0, qCalMax = 5, qCalMin = 0\<rparr>)
                     (1 := \<lparr>LandsatRadianceGainsOffsets.band = 5, lMax = 10, lMin = 0, qCalMax = 5, qCalMin = 0\<rparr>)\<rparr>
       (\<lambda>i. 0) 3 (\<lambda>i. 7)
     = (None, \<lambda>j. if j < 2 then 0 else 7)"
    using band_range_exception_at_first_bad_band
      [where bandValues = "\<lambda>i. 0" and numBands = 3 and out = "\<lambda>i. 7"
        and landsat = "\<lparr>numOutBands = 2,
        radGainOff = (\<lambda>i. \<lparr>LandsatRadianceGainsOffsets.band = 1, lMax = 10, lMin = 0, qCalMax = 5, qCalMin = 0\<rparr>)
                     (1 := \<lparr>LandsatRadianceGainsOffsets.band = 5, lMax = 10, lMin = 0, qCalMax = 5, qCalMin = 0\<rparr>)\<rparr>",
       THEN conjunct1]
    by (simp add: float_to_int_def)
  have landsat: "fst (RSGISLandsatRadianceCalibration_calcImageValue
       \<lparr>numOutBands = 2,
        radGainOff = (\<lambda>i. \<lparr>LandsatRadianceGainsOffsets.band = 1, lMax = 10, lMin = 0, qCalMax = 5, qCalMin = 0\<rparr>)
                     (1 := \<lparr>LandsatRadianceGainsOffsets.band = 5, lMax = 10, lMin = 0, qCalMax = 5, qCalMin = 0\<rparr>)\<rparr>
       (\<lambda>i. 8) 3 (\<lambda>i. 7)) = Some bandRangeException"
    apply (rule exE [OF mp [OF band_range_exception_at_first_bad_band
      [where bandValues = "\<lambda>i. 8" and numBands = 3 and out = "\<lambda>i. 7"
        and landsat = "\<lparr>numOutBands = 2,
        radGainOff = (\<lambda>i. \<lparr>LandsatRadianceGainsOffsets.band = 1, lMax = 10, lMin = 0, qCalMax = 5, qCalMin = 0\<rparr>)
                     (1 := \<lparr>LandsatRadianceGainsOffsets.band = 5, lMax = 10, lMin = 0, qCalMax = 5, qCalMin = 0\<rparr>)\<rparr>",
       THEN conjunct2, THEN conjunct1]]])
     apply (intro conjI exI [of _ 1]; simp add: float_to_int_def)
    apply (elim conjE, simp)
    done
  have spot: "fst (RSGISSPOTRadianceCalibration_calcImageValue
       \<lparr>numOutBands = 2,
        radGainOff = (\<lambda>i. \<lparr>SPOTRadianceGainsOffsets.band = 1, gain = 2\<rparr>)
                     (1 := \<lparr>SPOTRadianceGainsOffsets.band = 5, gain = 2\<rparr>)\<rparr>
       (\<lambda>i. 8) 3 (\<lambda>i. 7)) = Some bandRangeException"
    apply (rule exE [OF mp [OF band_range_exception_at_first_bad_band
      [where bandValues = "\<lambda>i. 8" and numBands = 3 and out = "\<lambda>i. 7"
        and spot = "\<lparr>numOutBands = 2,
        radGainOff = (\<lambda>i. \<lparr>SPOTRadianceGainsOffsets.band = 1, gain = 2\<rparr>)
                     (1 := \<lparr>SPOTRadianceGainsOffsets.band = 5, gain = 2\<rparr>)\<rparr>",
       THEN conjunct2, THEN conjunct2, THEN conjunct1]]])
     apply (intro conjI exI [of _ 1]; simp add: float_to_int_def)
    apply (elim conjE, simp)
    done
  have ikonos: "fst (RSGISIkonosRadianceCalibration_calcImageValue
       \<lparr>numOutBands = 2,
        radGainOff = (\<lambda>i. \<lparr>IkonosRadianceGainsOffsets.band = 1, calCoef = 2, bandwidth = 5\<rparr>)
                     (1 := \<lparr>IkonosRadianceGainsOffsets.band = 5, calCoef = 2, bandwidth = 5\<rparr>)\<rparr>
       (\<lambda>i. 8) 3 (\<lambda>i. 7)) = Some bandRangeException"
    apply (rule exE [OF mp [OF band_range_exception_at_first_bad_band
      [where bandValues = "\<lambda>i. 8" and numBands = 3 and out = "\<lambda>i. 7"
        and ikonos = "\<lparr>numOutBands = 2,
        radGainOff = (\<lambda>i. \<lparr>IkonosRadianceGainsOffsets.band = 1, calCoef = 2, bandwidth = 5\<rparr>)
                     (1 := \<lparr>IkonosRadianceGainsOffsets.band = 5, calCoef = 2, bandwidth = 5\<rparr>)\<rparr>",
       THEN conjunct2, THEN conjunct2, THEN conjunct2, THEN conjunct1]]])
     apply (intro conjI exI [of _ 1]; simp add: float_to_int_def)
    apply (elim conjE, simp)
    done
  have aster: "fst (RSGISASTERRadianceCalibration_calcImageValue
       \<lparr>numOutBands = 2,
        radGainOff = (\<lambda>i. \<lparr>ASTERRadianceGainsOffsets.band = 1, unitConCoef = 3\<rparr>)
                     (1 := \<lparr>ASTERRadianceGainsOffsets.band = 5, unitConCoef = 3\<rparr>)\<rparr>
       (\<lambda>i. 8) 3 (\<lambda>i. 7)) = Some bandRangeException"
    apply (rule exE [OF mp [OF band_range_exception_at_first_bad_band
      [where bandValues = "\<lambda>i. 8" and numBands = 3 and out = "\<lambda>i. 7"
        and aster = "\<lparr>numOutBands = 2,
        radGainOff = (\<lambda>i. \<lparr>ASTERRadianceGainsOffsets.band = 1, unitConCoef = 3\<rparr>)
                     (1 := \<lparr>ASTERRadianceGainsOffsets.band = 5, unitConCoef = 3\<rparr>)\<rparr>",
       THEN conjunct2, THEN conjunct2, THEN conjunct2, THEN conjunct2, THEN conjunct1]]])
     apply (intro conjI exI [of _ 1]; simp add: float_to_int_def)
    apply (elim conjE, simp)
    done
  have irs: "fst (RSGISIRSRadianceCalibration_calcImageValue
       \<lparr>numOutBands = 2,
        radGainOff = (\<lambda>i. \<lparr>IRSRadianceGainsOffsets.band = 1, lMax = 10, lMin = 0, qCalMax = 5, qCalMin = 0\<rparr>)
                     (1 := \<lparr>IRSRadianceGainsOffsets.band = 5, lMax = 10, lMin = 0, qCalMax = 5, qCalMin = 0\<rparr>)\<rparr>
       (\<lambda>i. 8) 3 (\<lambda>i. 7)) = Some bandRangeException"
    apply (rule exE [OF mp [OF band_range_exception_at_first_bad_band
      [where bandValues = "\<lambda>i. 8" and numBands = 3 and out = "\<lambda>i. 7"
        and irs = "\<lparr>numOutBands = 2,
        radGainOff = (\<lambda>i. \<lparr>IRSRadianceGainsOffsets.band = 1, lMax = 10, lMin = 0, qCalMax = 5, qCalMin = 0\<rparr>)
                     (1 := \<lparr>IRSRadianceGainsOffsets.band = 5, lMax = 10, lMin = 0, qCalMax = 5, qCalMin = 0\<rparr>)\<rparr>",
       THEN conjunct2, THEN conjunct2, THEN conjunct2, THEN conjunct2, THEN conjunct2, THEN conjunct1]]])
     apply (intro conjI exI [of _ 1]; simp add: float_to_int_def)
    apply (elim conjE, simp)
    done
  have qb16bit: "fst (RSGISQuickbird16bitRadianceCalibration_calcImageValue
       \<lparr>numOutBands = 2,
        radGainOff = (\<lambda>i. \<lparr>Quickbird16bitRadianceGainsOffsets.band = 1, calFactor = 3, bandIntegrate = 2\<rparr>)
                     (1 := \<lparr>Quickbird16bitRadianceGainsOffsets.band = 5, calFactor = 3, bandIntegrate = 2\<rparr>)\<rparr>
       (\<lambda>i. 8) 3 (\<lambda>i. 7)) = Some bandRangeException"
    apply (rule exE [OF mp [OF band_range_exception_at_first_bad_band
      [where bandValues = "\<lambda>i. 8" and numBands = 3 and out = "\<lambda>i. 7"
        and qb16bit = "\<lparr>numOutBands = 2,
        radGainOff = (\<lambda>i. \<lparr>Quickbird16bitRadianceGainsOffsets.band = 1, calFactor = 3, bandIntegrate = 2\<rparr>)
                     (1 := \<lparr>Quickbird16bitRadianceGainsOffsets.band = 5, calFactor = 3, bandIntegrate = 2\<rparr>)\<rparr>",
       THEN conjunct2, THEN conjunct2, THEN conjunct2, THEN conjunct2, THEN conjunct2, THEN conjunct2, THEN conjunct1]]])
     apply (intro conjI exI [of _ 1]; simp add: float_to_int_def)
    apply (elim conjE, simp)
    done
  have qb8bit: "fst (RSGISQuickbird8bitRadianceCalibration_calcImageValue
       \<lparr>numOutBands = 2,
        radGainOff = (\<lambda>i. \<lparr>Quickbird8bitRadianceGainsOffsets.band = 1, calFactor = 3, k = 5, bandIntegrate = 2\<rparr>)
                     (1 := \<lparr>Quickbird8bitRadianceGainsOffsets.band = 5, calFactor = 3, k = 5, bandIntegrate = 2\<rparr>)\<rparr>
       (\<lambda>i. 8) 3 (\<lambda>i. 7)) = Some bandRangeException"
    apply (rule exE [OF mp [OF band_range_exception_at_first_bad_band
      [where bandValues = "\<lambda>i. 8" and numBands = 3 and out = "\<lambda>i. 7"
        and qb8bit = "\<lparr>numOutBands = 2,
        radGainOff = (\<lambda>i. \<lparr>Quickbird8bitRadianceGainsOffsets.band = 1, calFactor = 3, k = 5, bandIntegrate = 2\<rparr>)
                     (1 := \<lparr>Quickbird8bitRadianceGainsOffsets.band = 5, calFactor = 3, k = 5, bandIntegrate = 2\<rparr>)\<rparr>",
       THEN conjunct2, THEN conjunct2, THEN conjunct2, THEN conjunct2, THEN conjunct2, THEN conjunct2, THEN conjunct2, THEN conjunct1]]])
     apply (intro conjI exI [of _ 1]; simp add: float_to_int_def)
    apply (elim conjE, simp)
    done
  have worldView: "fst (RSGISWorldView2RadianceCalibration_calcImageValue
       \<lparr>numOutBands = 2,
        radGainOff = (\<lambda>i. \<lparr>WorldView2RadianceGainsOffsets.band = 1, calFactor = 3, bandIntegrate = 2\<rparr>)
                     (1 := \<lparr>WorldView2RadianceGainsOffsets.band = 5, calFactor = 3, bandIntegrate = 2\<rparr>)\<rparr>
       (\<lambda>i. 8) 3 (\<lambda>i. 7)) = Some bandRangeException"
    apply (rule exE [OF mp [OF band_range_exception_at_first_bad_band
      [where bandValues = "\<lambda>i. 8" and numBands = 3 and out = "\<lambda>i. 7"
        and worldView = "\<lparr>numOutBands = 2,
        radGainOff = (\<lambda>i. \<lparr>WorldView2RadianceGainsOffsets.band = 1, calFactor = 3, bandIntegrate = 2\<rparr>)
                     (1 := \<lparr>WorldView2RadianceGainsOffsets.band = 5, calFactor = 3, bandIntegrate = 2\<rparr>)\<rparr>",
       THEN conjunct2, THEN conjunct2, THEN conjunct2, THEN conjunct2, THEN conjunct2, THEN conjunct2, THEN conjunct2, THEN conjunct2]]])
     apply (intro conjI exI [of _ 1]; simp add: float_to_int_def)
    apply (elim conjE, simp)
    done
  show ?thesis
    by (intro conjI) (fact border landsat spot ikonos aster irs qb16bit qb8bit worldView)+
qed

text \<open>
  Claim C2, as amended. The Landsat function treats the pixel as a border pixel exactly when
  \<open>int(bandValues[0]) == 0\<close> (by \<open>float_to_int_zero_iff\<close>, when the value lies strictly
  between -1 and 1). Then it writes 0 to all \<open>numOutBands\<close> output bands and returns normally,
  whatever the table holds: no range check, no calibration arithmetic. Otherwise it runs the
  checked loop: when every band number is within range it stores
  \<open>gain * (bandValues[i] - qCalMin) + lMin\<close>, with \<open>gain = (lMax - lMin) / (qCalMax - qCalMin)\<close>,
  in every output band; when some band number exceeds \<open>numBands\<close> it throws at the first such
  entry, with the formula stored only in the bands before it. The claim leaves the last case
  out and says the formula is applied to every output band.
\<close>

theorem Landsat_border_or_gain_formula:
  "(float_to_int (bandValues 0) = 0
    \<longrightarrow> RSGISLandsatRadianceCalibration_calcImageValue this bandValues numBands out
        = (None, \<lambda>j. if j < numOutBands this then 0 else out j)) \<and>
   (float_to_int (bandValues 0) \<noteq> 0
      \<and> (\<forall>i<numOutBands this. LandsatRadianceGainsOffsets.band (radGainOff this i) \<le> numBands)
    \<longrightarrow> RSGISLandsatRadianceCalibration_calcImageValue this bandValues numBands out
        = (None, \<lambda>j. if j < numOutBands this
                      then (LandsatRadianceGainsOffsets.lMax (radGainOff this j) - LandsatRadianceGainsOffsets.lMin (radGainOff this j)) / (LandsatRadianceGainsOffsets.qCalMax (radGainOff this j) - LandsatRadianceGainsOffsets.qCalMin (radGainOff this j))
                  * (bandValues j - LandsatRadianceGainsOffsets.qCalMin (radGainOff this j)) + LandsatRadianceGainsOffsets.lMin (radGainOff this j)
                      else out j)) \<and>
   (float_to_int (bandValues 0) \<noteq> 0
      \<and> (\<exists>i<numOutBands this. LandsatRadianceGainsOffsets.band (radGainOff this i) > numBands)
    \<longrightarrow> (\<exists>i0<numOutBands this. LandsatRadianceGainsOffsets.band (radGainOff this i0) > numBands
           \<and> (\<forall>j<i0. LandsatRadianceGainsOffsets.band (radGainOff this j) \<le> numBands)
           \<and> RSGISLandsatRadianceCalibration_calcImageValue this bandValues numBands out
               = (Some bandRangeException,
                  \<lambda>j. if j < i0
                      then (LandsatRadianceGainsOffsets.lMax (radGainOff this j) - LandsatRadianceGainsOffsets.lMin (radGainOff this j)) / (LandsatRadianceGainsOffsets.qCalMax (radGainOff this j) - LandsatRadianceGainsOffsets.qCalMin (radGainOff this j))
                  * (bandValues j - LandsatRadianceGainsOffsets.qCalMin (radGainOff this j)) + LandsatRadianceGainsOffsets.lMin (radGainOff this j)
                      else out j)))"
proof (intro conjI impI)
  assume "float_to_int (bandValues 0) = 0"
  then show "RSGISLandsatRadianceCalibration_calcImageValue this bandValues numBands out
        = (None, \<lambda>j. if j < numOutBands this then 0 else out j)"
    by (rule Landsat_calcImageValue_border)
next
  assume a: "float_to_int (bandValues 0) \<noteq> 0
      \<and> (\<forall>i<numOutBands this. LandsatRadianceGainsOffsets.band (radGainOff this i) \<le> numBands)"
  show "RSGISLandsatRadianceCalibration_calcImageValue this bandValues numBands out
        = (None, \<lambda>j. if j < numOutBands this
                      then (LandsatRadianceGainsOffsets.lMax (radGainOff this j) - LandsatRadianceGainsOffsets.lMin (radGainOff this j)) / (LandsatRadianceGainsOffsets.qCalMax (radGainOff this j) - LandsatRadianceGainsOffsets.qCalMin (radGainOff this j))
                  * (bandValues j - LandsatRadianceGainsOffsets.qCalMin (radGainOff this j)) + LandsatRadianceGainsOffsets.lMin (radGainOff this j)
                      else out j)"
    by (rule Landsat_calcImageValue_ok) (use a in simp_all)
next
  assume "float_to_int (bandValues 0) \<noteq> 0
      \<and> (\<exists>i<numOutBands this. LandsatRadianceGainsOffsets.band (radGainOff this i) > numBands)"
  then obtain i where "float_to_int (bandValues 0) \<noteq> 0" "i < numOutBands this"
      "LandsatRadianceGainsOffsets.band (radGainOff this i) > numBands"
    by blast
  then show "\<exists>i0<numOutBands this. LandsatRadianceGainsOffsets.band (radGainOff this i0) > numBands
           \<and> (\<forall>j<i0. LandsatRadianceGainsOffsets.band (radGainOff this j) \<le> numBands)
           \<and> RSGISLandsatRadianceCalibration_calcImageValue this bandValues numBands out
               = (Some bandRangeException,
                  \<lambda>j. if j < i0
                      then (LandsatRadianceGainsOffsets.lMax (radGainOff this j) - LandsatRadianceGainsOffsets.lMin (radGainOff this j)) / (LandsatRadianceGainsOffsets.qCalMax (radGainOff this j) - LandsatRadianceGainsOffsets.qCalMin (radGainOff this j))
                  * (bandValues j - LandsatRadianceGainsOffsets.qCalMin (radGainOff this j)) + LandsatRadianceGainsOffsets.lMin (radGainOff this j)
                      else out j)"
    by (rule Landsat_calcImageValue_throws)
qed

text \<open>The theorem at a border pixel (value 1/2) and at a pixel of value 8, once with both band
  numbers in range and once with the second band number out of range.\<close>

theorem Landsat_border_or_gain_formula_witness:
  "RSGISLandsatRadianceCalibration_calcImageValue
       \<lparr>numOutBands = 2,
        radGainOff = (\<lambda>i. \<lparr>LandsatRadianceGainsOffsets.band = 1, lMax = 10, lMin = 1,
                              qCalMax = 5, qCalMin = 0\<rparr>)
                     (1 := \<lparr>LandsatRadianceGainsOffsets.band = 5, lMax = 10, lMin = 1,
                              qCalMax = 5, qCalMin = 0\<rparr>)\<rparr>
       (\<lambda>i. 1 / 2) 3 (\<lambda>i. 7)
     = (None, \<lambda>j. if j < 2 then 0 else 7) \<and>
   RSGISLandsatRadianceCalibration_calcImageValue
       \<lparr>numOutBands = 2,
        radGainOff = \<lambda>i. \<lparr>LandsatRadianceGainsOffsets.band = 1, lMax = 10, lMin = 1,
                             qCalMax = 5, qCalMin = 0\<rparr>\<rparr>
       (\<lambda>i. 8) 3 (\<lambda>i. 7)
     = (None, \<lambda>j. if j < 2 then (10 - 1) / (5 - 0) * (8 - 0) + 1 else 7) \<and>
   fst (RSGISLandsatRadianceCalibration_calcImageValue
       \<lparr>numOutBands = 2,
        radGainOff = (\<lambda>i. \<lparr>LandsatRadianceGainsOffsets.band = 1, lMax = 10, lMin = 1,
                              qCalMax = 5, qCalMin = 0\<rparr>)
                     (1 := \<lparr>LandsatRadianceGainsOffsets.band = 5, lMax = 10, lMin = 1,
                              qCalMax = 5, qCalMin = 0\<rparr>)\<rparr>
       (\<lambda>i. 8) 3 (\<lambda>i. 7)) = Some bandRangeException"
proof -
  have a: "RSGISLandsatRadianceCalibration_calcImageValue
       \<lparr>numOutBands = 2,
        radGainOff = (\<lambda>i. \<lparr>LandsatRadianceGainsOffsets.band = 1, lMax = 10, lMin = 1,
                              qCalMax = 5, qCalMin = 0\<rparr>)
                     (1 := \<lparr>LandsatRadianceGainsOffsets.band = 5, lMax = 10, lMin = 1,
                              qCalMax = 5, qCalMin = 0\<rparr>)\<rparr>
       (\<lambda>i. 1 / 2) 3 (\<lambda>i. 7)
     = (None, \<lambda>j. if j < 2 then 0 else 7)"
    using Landsat_border_or_gain_formula
      [where bandValues = "\<lambda>i. 1 / 2" and numBands = 3 and out = "\<lambda>i. 7"
        and this = "\<lparr>numOutBands = 2,
        radGainOff = (\<lambda>i. \<lparr>LandsatRadianceGainsOffsets.band = 1, lMax = 10, lMin = 1,
                              qCalMax = 5, qCalMin = 0\<rparr>)
                     (1 := \<lparr>LandsatRadianceGainsOffsets.band = 5, lMax = 10, lMin = 1,
                              qCalMax = 5, qCalMin = 0\<rparr>)\<rparr>",
       THEN conjunct1]
    by (simp add: float_to_int_def)
  have b: "RSGISLandsatRadianceCalibration_calcImageValue
       \<lparr>numOutBands = 2,
        radGainOff = \<lambda>i. \<lparr>LandsatRadianceGainsOffsets.band = 1, lMax = 10, lMin = 1,
                             qCalMax = 5, qCalMin = 0\<rparr>\<rparr>
       (\<lambda>i. 8) 3 (\<lambda>i. 7)
     = (None, \<lambda>j. if j < 2 then (10 - 1) / (5 - 0) * (8 - 0) + 1 else 7)"
    using Landsat_border_or_gain_formula
      [where bandValues = "\<lambda>i. 8" and numBands = 3 and out = "\<lambda>i. 7"
        and this = "\<lparr>numOutBands = 2,
        radGainOff = \<lambda>i. \<lparr>LandsatRadianceGainsOffsets.band = 1, lMax = 10, lMin = 1,
                             qCalMax = 5, qCalMin = 0\<rparr>\<rparr>",
       THEN conjunct2, THEN conjunct1]
    by (simp add: float_to_int_def cong: if_cong)
  have c: "fst (RSGISLandsatRadianceCalibration_calcImageValue
       \<lparr>numOutBands = 2,
        radGainOff = (\<lambda>i. \<lparr>LandsatRadianceGainsOffsets.band = 1, lMax = 10, lMin = 1,
                              qCalMax = 5, qCalMin = 0\<rparr>)
                     (1 := \<lparr>LandsatRadianceGainsOffsets.band = 5, lMax = 10, lMin = 1,
                              qCalMax = 5, qCalMin = 0\<rparr>)\<rparr>
       (\<lambda>i. 8) 3 (\<lambda>i. 7)) = Some bandRangeException"
    apply (rule exE [OF mp [OF Landsat_border_or_gain_formula
      [where bandValues = "\<lambda>i. 8" and numBands = 3 and out = "\<lambda>i. 7"
        and this = "\<lparr>numOutBands = 2,
        radGainOff = (\<lambda>i. \<lparr>LandsatRadianceGainsOffsets.band = 1, lMax = 10, lMin = 1,
                              qCalMax = 5, qCalMin = 0\<rparr>)
                     (1 := \<lparr>LandsatRadianceGainsOffsets.band = 5, lMax = 10, lMin = 1,
                              qCalMax = 5, qCalMin = 0\<rparr>)\<rparr>",
       THEN conjunct2, THEN conjunct2]]])
     apply (intro conjI exI [of _ 1]; simp add: float_to_int_def)
    apply (elim conjE, simp)
    done
  show ?thesis
    by (intro conjI) (fact a b c)+
qed

text \<open>
  The claim as stated fails on a pixel that is not a border pixel when a band number is out
  of range: with one output band whose band number 2 exceeds the 1 input band, the call throws
  and \<open>output[0]\<close> keeps its old value 7 instead of the formula's value.
\<close>

theorem Landsat_formula_not_applied_when_band_out_of_range:
  "float_to_int 8 \<noteq> 0
   \<and> fst (RSGISLandsatRadianceCalibration_calcImageValue
          \<lparr>numOutBands = 1,
           radGainOff = \<lambda>i. \<lparr>LandsatRadianceGainsOffsets.band = 2, lMax = 10, lMin = 1,
                                qCalMax = 5, qCalMin = 0\<rparr>\<rparr>
          (\<lambda>i. 8) 1 (\<lambda>i. 7)) = Some bandRangeException
   \<and> snd (RSGISLandsatRadianceCalibration_calcImageValue
          \<lparr>numOutBands = 1,
           radGainOff = \<lambda>i. \<lparr>LandsatRadianceGainsOffsets.band = 2, lMax = 10, lMin = 1,
                                qCalMax = 5, qCalMin = 0\<rparr>\<rparr>
          (\<lambda>i. 8) 1 (\<lambda>i. 7)) 0 = 7
   \<and> (10 - 1) / (5 - 0) * (8 - 0) + 1 \<noteq> (7 :: real)"
  by (simp add: RSGISLandsatRadianceCalibration_calcImageValue_def float_to_int_def
      forOutBands.simps)

section \<open>Claims about the visitors' unused overloads\<close>

text \<open>
  Claim C6. For each of the three ISODATA visitor classes, every overload other than the one
  the class implements (\<open>calcImageValue(float*, int)\<close> for the Accumulator and for the Std-Dev
  visitor, \<open>calcImageValue(float*, int, float*)\<close> for the Labeler) throws an
  \<open>RSGISImageCalcException\<close> for every input, with one of the header's three spellings of the
  not-implemented message. The same holds of \<open>calcImageValueCondition\<close>.
\<close>

theorem unused_overloads_throw:
  "(\<not> is_BandValues args \<longrightarrow>
      (\<exists>msg \<in> notImplementedMessages.
         RSGISISODATACalcPixelClusterCalcImageVal_calcImageValue args
         = Some (RSGISImageCalcException msg))) \<and>
   (\<not> is_BandValues args \<longrightarrow>
      (\<exists>msg \<in> notImplementedMessages.
         RSGISISODATACalcPixelClusterStdDevCalcImageVal_calcImageValue args
         = Some (RSGISImageCalcException msg))) \<and>
   (\<not> is_BandValues_Output args \<longrightarrow>
      (\<exists>msg \<in> notImplementedMessages.
         RSGISApplyISODATAClassifierCalcImageVal_calcImageValue args
         = Some (RSGISImageCalcException msg)))"
  by (cases args) (simp_all add: notImplementedMessages_def)

text \<open>The theorem at the three-argument overload for the Accumulator and the Std-Dev visitor,
  and at the two-argument overload for the Labeler.\<close>

theorem unused_overloads_throw_witness:
  "RSGISISODATACalcPixelClusterCalcImageVal_calcImageValue
     (BandValues_Output (\<lambda>i. 10) 2 (\<lambda>i. 0)) = Some (RSGISImageCalcException ''Not Implemented'')
   \<and> RSGISISODATACalcPixelClusterStdDevCalcImageVal_calcImageValue
     (BandValues_Output (\<lambda>i. 10) 2 (\<lambda>i. 0)) = Some (RSGISImageCalcException ''Not Implemented'')
   \<and> RSGISApplyISODATAClassifierCalcImageVal_calcImageValue
     (BandValues (\<lambda>i. 10) 2) = Some (RSGISImageCalcException ''Not Implemented'')"
  using unused_overloads_throw [of "BandValues_Output (\<lambda>i. 10) 2 (\<lambda>i. 0)"]
    unused_overloads_throw [of "BandValues (\<lambda>i. 10) 2"]
  by simp

section \<open>Properties of the ISODATA clustering core\<close>

subsection \<open>Nearest centroid\<close>

text \<open>
  The invariant of the search loop. \<open>pre\<close> are the centroids already inspected, \<open>cs\<close> those
  still to come; the best so far is the first of least distance among \<open>pre\<close>.
\<close>

lemma nearestFrom_first_min:
  assumes "nearestFrom v cs (length pre) (mi, md) = (idx, d)"
    and "mi < length pre"
    and "md = euclideanDistance v (mean (pre ! mi))"
    and "\<forall>j<length pre. md \<le> euclideanDistance v (mean (pre ! j))"
    and "\<forall>j<mi. md < euclideanDistance v (mean (pre ! j))"
  shows "idx < length (pre @ cs)
         \<and> d = euclideanDistance v (mean ((pre @ cs) ! idx))
         \<and> (\<forall>j<length (pre @ cs). d \<le> euclideanDistance v (mean ((pre @ cs) ! j)))
         \<and> (\<forall>j<idx. d < euclideanDistance v (mean ((pre @ cs) ! j)))"
  using assms
proof (induction cs arbitrary: pre mi md)
  case Nil
  then show ?case by auto
next
  case (Cons c cs)
  let ?d = "euclideanDistance v (mean c)"
  have app: "(pre @ [c]) @ cs = pre @ c # cs" by simp
  show ?case
  proof (cases "?d < md")
    case True
    have call: "nearestFrom v cs (length (pre @ [c])) (length pre, ?d) = (idx, d)"
      using Cons.prems(1) True by simp
    have "idx < length ((pre @ [c]) @ cs)
         \<and> d = euclideanDistance v (mean (((pre @ [c]) @ cs) ! idx))
         \<and> (\<forall>j<length ((pre @ [c]) @ cs). d \<le> euclideanDistance v (mean (((pre @ [c]) @ cs) ! j)))
         \<and> (\<forall>j<idx. d < euclideanDistance v (mean (((pre @ [c]) @ cs) ! j)))"
    proof (rule Cons.IH [OF call])
      show "length pre < length (pre @ [c])" by simp
      show "?d = euclideanDistance v (mean ((pre @ [c]) ! length pre))" by simp
      show "\<forall>j<length (pre @ [c]). ?d \<le> euclideanDistance v (mean ((pre @ [c]) ! j))"
        using Cons.prems(4) True by (auto simp: nth_append less_Suc_eq)
      show "\<forall>j<length pre. ?d < euclideanDistance v (mean ((pre @ [c]) ! j))"
        using Cons.prems(4) True by (auto simp: nth_append)
    qed
    then show ?thesis unfolding app .
  next
    case False
    have call: "nearestFrom v cs (length (pre @ [c])) (mi, md) = (idx, d)"
      using Cons.prems(1) False by simp
    have "idx < length ((pre @ [c]) @ cs)
         \<and> d = euclideanDistance v (mean (((pre @ [c]) @ cs) ! idx))
         \<and> (\<forall>j<length ((pre @ [c]) @ cs). d \<le> euclideanDistance v (mean (((pre @ [c]) @ cs) ! j)))
         \<and> (\<forall>j<idx. d < euclideanDistance v (mean (((pre @ [c]) @ cs) ! j)))"
    proof (rule Cons.IH [OF call])
      show "mi < length (pre @ [c])" using Cons.prems(2) by simp
      show "md = euclideanDistance v (mean ((pre @ [c]) ! mi))"
        using Cons.prems(2,3) by (simp add: nth_append)
      show "\<forall>j<length (pre @ [c]). md \<le> euclideanDistance v (mean ((pre @ [c]) ! j))"
        using Cons.prems(4) False by (auto simp: nth_append less_Suc_eq)
      show "\<forall>j<mi. md < euclideanDistance v (mean ((pre @ [c]) ! j))"
        using Cons.prems(2,5) by (auto simp: nth_append)
    qed
    then show ?thesis unfolding app .
  qed
qed

text \<open>
  The search returns the first position at which the distance to \<open>v\<close> is least: no centroid
  is nearer, and every centroid before it is strictly farther.
\<close>

lemma nearestCentroid_first_min:
  assumes "cs \<noteq> []"
  shows "\<exists>idx d. nearestCentroid v cs = Some (idx, d)
           \<and> idx < length cs
           \<and> d = euclideanDistance v (mean (cs ! idx))
           \<and> (\<forall>j<length cs. d \<le> euclideanDistance v (mean (cs ! j)))
           \<and> (\<forall>j<idx. d < euclideanDistance v (mean (cs ! j)))"
proof -
  obtain c rest where cs: "cs = c # rest"
    using assms by (cases cs) auto
  obtain idx d where r: "nearestFrom v rest (length [c]) (0, euclideanDistance v (mean c)) = (idx, d)"
    by (cases "nearestFrom v rest (length [c]) (0, euclideanDistance v (mean c))") auto
  have "idx < length ([c] @ rest)
         \<and> d = euclideanDistance v (mean (([c] @ rest) ! idx))
         \<and> (\<forall>j<length ([c] @ rest). d \<le> euclideanDistance v (mean (([c] @ rest) ! j)))
         \<and> (\<forall>j<idx. d < euclideanDistance v (mean (([c] @ rest) ! j)))"
    by (rule nearestFrom_first_min [OF r]) simp_all
  moreover have "nearestCentroid v cs = Some (idx, d)"
    using r cs by (simp add: nearestCentroid_def)
  ultimately show ?thesis
    using cs by auto
qed

text \<open>When the cluster IDs increase along the set, the first nearest centroid is the nearest
  centroid of lowest ID.\<close>

lemma first_min_lowest_ID:
  assumes "sorted_wrt (<) (map clusterID cs)" and "idx < length cs" and "j < length cs"
    and "\<forall>i<idx. d < euclideanDistance v (mean (cs ! i))"
    and "euclideanDistance v (mean (cs ! j)) = d"
  shows "clusterID (cs ! idx) \<le> clusterID (cs ! j)"
proof -
  have "\<not> j < idx"
    using assms(4,5) by auto
  then have "idx \<le> j" by simp
  show ?thesis
  proof (cases "idx = j")
    case True
    then show ?thesis by simp
  next
    case False
    with \<open>idx \<le> j\<close> have "idx < j" by simp
    then have "map clusterID cs ! idx < map clusterID cs ! j"
      using sorted_wrt_nth_less [OF assms(1), of idx j] assms(3) by simp
    then show ?thesis
      using assms(2,3) by simp
  qed
qed

text \<open>A pixel at the same distance from both centroids is assigned to the first.\<close>

lemma nearestCentroid_tie_first:
  "nearestCentroid [50, 50]
     [\<lparr>clusterID = 1, mean = [10, 10], stddev = [1, 1], population = 7\<rparr>,
      \<lparr>clusterID = 2, mean = [90, 90], stddev = [2, 2], population = 8\<rparr>]
   = Some (0, sqrt 3200)"
  by (simp add: nearestCentroid_def euclideanDistance_def)

text \<open>
  Claim C3. For every pixel vector \<open>v\<close> that is not a border pixel and every non-empty
  published set, the Accumulator and the Labeler choose the same centroid, at position \<open>idx\<close>:
  the Accumulator adds \<open>v\<close> to the working centroid at \<open>idx\<close> and the Labeler returns the ID of
  the published centroid at \<open>idx\<close>. That centroid has the least Euclidean distance to \<open>v\<close> and
  is the first such in iteration order; when the IDs increase along the set it has the lowest
  ID among the nearest. The Accumulator needs its working set parallel to the published set and
  at least \<open>numImageBands\<close> bands in the pixel, or it fails before it chooses.
\<close>

theorem nearest_centroid_same_in_both_passes:
  assumes "\<not> isBorder v" and "clusterCentres this \<noteq> []"
    and "length (newClusterCentres this) = length (clusterCentres this)"
    and "numImageBands this \<le> length v"
  shows "\<exists>idx<length (clusterCentres this). \<exists>d.
           d = euclideanDistance v (mean (clusterCentres this ! idx))
           \<and> (\<forall>j<length (clusterCentres this).
                 d \<le> euclideanDistance v (mean (clusterCentres this ! j)))
           \<and> (\<forall>j<idx. d < euclideanDistance v (mean (clusterCentres this ! j)))
           \<and> (sorted_wrt (<) (map clusterID (clusterCentres this)) \<longrightarrow>
                (\<forall>j<length (clusterCentres this).
                   euclideanDistance v (mean (clusterCentres this ! j)) = d \<longrightarrow>
                   clusterID (clusterCentres this ! idx) \<le> clusterID (clusterCentres this ! j)))
           \<and> RSGISISODATACalcPixelClusterCalcImageVal_calcImageValue_impl this v
               = Inr (this\<lparr>newClusterCentres :=
                             (newClusterCentres this)
                               [idx := accumulate v (newClusterCentres this ! idx)],
                           sumDist := sumDist this + d,
                           numVals := Suc (numVals this)\<rparr>)
           \<and> RSGISApplyISODATAClassifierCalcImageVal_calcImageValue_impl
                 (clusterCentres this) ignoreZeros v
               = Inr (clusterID (clusterCentres this ! idx))"
proof -
  obtain idx d where n: "nearestCentroid v (clusterCentres this) = Some (idx, d)"
    and idx: "idx < length (clusterCentres this)"
    and d: "d = euclideanDistance v (mean (clusterCentres this ! idx))"
    and le: "\<forall>j<length (clusterCentres this).
               d \<le> euclideanDistance v (mean (clusterCentres this ! j))"
    and first: "\<forall>j<idx. d < euclideanDistance v (mean (clusterCentres this ! j))"
    using nearestCentroid_first_min [OF assms(2), of v] by blast
  have ids: "sorted_wrt (<) (map clusterID (clusterCentres this)) \<longrightarrow>
                (\<forall>j<length (clusterCentres this).
                   euclideanDistance v (mean (clusterCentres this ! j)) = d \<longrightarrow>
                   clusterID (clusterCentres this ! idx) \<le> clusterID (clusterCentres this ! j))"
    using first_min_lowest_ID [OF _ idx _ first] by blast
  have acc: "RSGISISODATACalcPixelClusterCalcImageVal_calcImageValue_impl this v
               = Inr (this\<lparr>newClusterCentres :=
                             (newClusterCentres this)
                               [idx := accumulate v (newClusterCentres this ! idx)],
                           sumDist := sumDist this + d,
                           numVals := Suc (numVals this)\<rparr>)"
    using assms n idx
    by (simp add: RSGISISODATACalcPixelClusterCalcImageVal_calcImageValue_impl_def)
  have lab: "RSGISApplyISODATAClassifierCalcImageVal_calcImageValue_impl
                 (clusterCentres this) ignoreZeros v
               = Inr (clusterID (clusterCentres this ! idx))"
    using assms(1) n
    by (simp add: RSGISApplyISODATAClassifierCalcImageVal_calcImageValue_impl_def)
  show ?thesis
    using idx d le first ids acc lab by blast
qed

text \<open>
  The theorem on the published set with means (10, 10) and (90, 90), an empty working set and
  the pixel (13, 14), at distance 5 from the first centroid: the Accumulator adds the pixel to
  the first working centroid and the Labeler returns the ID 1.
\<close>

theorem nearest_centroid_same_in_both_passes_witness:
  "RSGISISODATACalcPixelClusterCalcImageVal_calcImageValue_impl
      \<lparr>clusterCentres =
         [\<lparr>clusterID = 1, mean = [10, 10], stddev = [1, 1], population = 7\<rparr>,
          \<lparr>clusterID = 2, mean = [90, 90], stddev = [2, 2], population = 8\<rparr>],
       newClusterCentres =
         [\<lparr>clusterID = 0, mean = [0, 0], stddev = [0, 0], population = 0\<rparr>,
          \<lparr>clusterID = 0, mean = [0, 0], stddev = [0, 0], population = 0\<rparr>],
       numImageBands = 2, sumDist = 0, numVals = 0\<rparr>
      [13, 14]
    = Inr \<lparr>clusterCentres =
             [\<lparr>clusterID = 1, mean = [10, 10], stddev = [1, 1], population = 7\<rparr>,
              \<lparr>clusterID = 2, mean = [90, 90], stddev = [2, 2], population = 8\<rparr>],
           newClusterCentres =
             [\<lparr>clusterID = 0, mean = [13, 14], stddev = [169, 196], population = 1\<rparr>,
              \<lparr>clusterID = 0, mean = [0, 0], stddev = [0, 0], population = 0\<rparr>],
           numImageBands = 2, sumDist = 5, numVals = 1\<rparr>
   \<and> RSGISApplyISODATAClassifierCalcImageVal_calcImageValue_impl
      [\<lparr>clusterID = 1, mean = [10, 10], stddev = [1, 1], population = 7\<rparr>,
       \<lparr>clusterID = 2, mean = [90, 90], stddev = [2, 2], population = 8\<rparr>]
      True [13, 14]
    = Inr 1"
proof -
  let ?acc = "\<lparr>clusterCentres =
         [\<lparr>clusterID = 1, mean = [10, 10], stddev = [1, 1], population = 7\<rparr>,
          \<lparr>clusterID = 2, mean = [90, 90], stddev = [2, 2], population = 8\<rparr>],
       newClusterCentres =
         [\<lparr>clusterID = 0, mean = [0, 0], stddev = [0, 0], population = 0\<rparr>,
          \<lparr>clusterID = 0, mean = [0, 0], stddev = [0, 0], population = 0\<rparr>],
       numImageBands = 2, sumDist = 0, numVals = 0\<rparr>"
  have D0: "euclideanDistance [13, 14] [10, 10] = 5"
    unfolding euclideanDistance_def by (rule real_sqrt_unique) simp_all
  have D1: "5 < euclideanDistance [13, 14] [90, 90]"
    unfolding euclideanDistance_def by (rule real_less_rsqrt) simp
  have h1: "\<not> isBorder [13, 14]"
    by (simp add: isBorder_def float_to_int_def)
  have h2: "clusterCentres ?acc \<noteq> []"
    by simp
  have h3: "length (newClusterCentres ?acc) = length (clusterCentres ?acc)"
    by simp
  have h4: "numImageBands ?acc \<le> length [13, 14 :: real]"
    by simp
  from nearest_centroid_same_in_both_passes [OF h1 h2 h3 h4, of True]
  obtain idx d where idx: "idx < length (clusterCentres ?acc)"
    and d: "d = euclideanDistance [13, 14] (mean (clusterCentres ?acc ! idx))"
    and le: "\<forall>j<length (clusterCentres ?acc).
               d \<le> euclideanDistance [13, 14] (mean (clusterCentres ?acc ! j))"
    and acc: "RSGISISODATACalcPixelClusterCalcImageVal_calcImageValue_impl ?acc [13, 14]
              = Inr (?acc\<lparr>newClusterCentres :=
                             (newClusterCentres ?acc)
                               [idx := accumulate [13, 14] (newClusterCentres ?acc ! idx)],
                           sumDist := sumDist ?acc + d,
                           numVals := Suc (numVals ?acc)\<rparr>)"
    and lab: "RSGISApplyISODATAClassifierCalcImageVal_calcImageValue_impl
                (clusterCentres ?acc) True [13, 14]
              = Inr (clusterID (clusterCentres ?acc ! idx))"
    by blast
  have "idx = 0"
  proof (rule ccontr)
    assume "idx \<noteq> 0"
    with idx have "idx = 1" by simp
    with d have "d = euclideanDistance [13, 14] [90, 90]" by simp
    moreover from le have "d \<le> euclideanDistance [13, 14] [10, 10]" by auto
    ultimately show False using D0 D1 by simp
  qed
  with d D0 have "d = 5" by simp
  with \<open>idx = 0\<close> acc lab show ?thesis
    by (simp add: accumulate_def)
qed

subsection \<open>The Accumulator's pass\<close>

text \<open>
  One call of the visitor changes the working set and the two running totals, and nothing
  else; the working set keeps its length.
\<close>

lemma accumulator_step_frame:
  assumes "RSGISISODATACalcPixelClusterCalcImageVal_calcImageValue_impl this v = Inr this'"
  shows "this' = this\<lparr>newClusterCentres := newClusterCentres this',
                      sumDist := sumDist this', numVals := numVals this'\<rparr>
         \<and> length (newClusterCentres this') = length (newClusterCentres this)"
  using assms
  by (auto simp: RSGISISODATACalcPixelClusterCalcImageVal_calcImageValue_impl_def
      split: if_splits option.splits)

text \<open>On a non-empty published set with a parallel working set and enough bands the visitor
  returns normally, and so does a pass.\<close>

lemma accumulator_step_returns:
  assumes "clusterCentres this \<noteq> []"
    and "length (newClusterCentres this) = length (clusterCentres this)"
    and "numImageBands this \<le> length v"
  shows "\<exists>this'. RSGISISODATACalcPixelClusterCalcImageVal_calcImageValue_impl this v = Inr this'"
proof (cases "isBorder v")
  case True
  then show ?thesis
    by (simp add: RSGISISODATACalcPixelClusterCalcImageVal_calcImageValue_impl_def)
next
  case False
  obtain idx d where "nearestCentroid v (clusterCentres this) = Some (idx, d)"
    and "idx < length (clusterCentres this)"
    using nearestCentroid_first_min [OF assms(1), of v] by blast
  with False assms(2,3) show ?thesis
    by (simp add: RSGISISODATACalcPixelClusterCalcImageVal_calcImageValue_impl_def)
qed

lemma accumulatorPass_frame:
  assumes "accumulatorPass this pixels = Inr this'"
  shows "this' = this\<lparr>newClusterCentres := newClusterCentres this',
                      sumDist := sumDist this', numVals := numVals this'\<rparr>
         \<and> length (newClusterCentres this') = length (newClusterCentres this)"
  using assms
proof (induction pixels arbitrary: this)
  case Nil
  then show ?case by simp
next
  case (Cons v vs)
  from Cons.prems obtain mid where
    step: "RSGISISODATACalcPixelClusterCalcImageVal_calcImageValue_impl this v = Inr mid"
    and rest: "accumulatorPass mid vs = Inr this'"
    by (auto split: sum.splits)
  have a: "mid = this\<lparr>newClusterCentres := newClusterCentres mid,
                      sumDist := sumDist mid, numVals := numVals mid\<rparr>"
    and la: "length (newClusterCentres mid) = length (newClusterCentres this)"
    using accumulator_step_frame [OF step] by simp_all
  have b: "this' = mid\<lparr>newClusterCentres := newClusterCentres this',
                      sumDist := sumDist this', numVals := numVals this'\<rparr>"
    and lb: "length (newClusterCentres this') = length (newClusterCentres mid)"
    using Cons.IH [OF rest] by simp_all
  have "this' = this\<lparr>newClusterCentres := newClusterCentres this',
                      sumDist := sumDist this', numVals := numVals this'\<rparr>"
    by (subst b, subst a) simp
  with la lb show ?case by simp
qed

lemma accumulatorPass_returns:
  assumes "clusterCentres this \<noteq> []"
    and "length (newClusterCentres this) = length (clusterCentres this)"
    and "\<forall>v\<in>set pixels. numImageBands this \<le> length v"
  shows "\<exists>this'. accumulatorPass this pixels = Inr this'"
  using assms
proof (induction pixels arbitrary: this)
  case Nil
  then show ?case by simp
next
  case (Cons v vs)
  obtain mid where
    step: "RSGISISODATACalcPixelClusterCalcImageVal_calcImageValue_impl this v = Inr mid"
    using accumulator_step_returns [of this v] Cons.prems by auto
  have fr: "mid = this\<lparr>newClusterCentres := newClusterCentres mid,
                      sumDist := sumDist mid, numVals := numVals mid\<rparr>"
    and len: "length (newClusterCentres mid) = length (newClusterCentres this)"
    using accumulator_step_frame [OF step] by simp_all
  have cc: "clusterCentres mid = clusterCentres this" and nb: "numImageBands mid = numImageBands this"
    by (subst fr, simp)+
  have "\<exists>this'. accumulatorPass mid vs = Inr this'"
    by (rule Cons.IH) (use Cons.prems cc nb len in simp_all)
  then show ?case
    using step by simp
qed

text \<open>
  Claim C5. During a pass of the Accumulator the published set \<open>clusterCentres\<close> is read and
  never written: after every number \<open>n\<close> of pixels visited, the visitor's state differs from
  the state at the start of the pass at most in the working set \<open>newClusterCentres\<close> and in the
  running totals \<open>sumDist\<close> and \<open>numVals\<close>. A pass over pixels with enough bands, on a non-empty
  published set with a parallel working set, does visit every pixel and return.
\<close>

theorem published_set_read_only_during_pass:
  "(\<forall>n this'. accumulatorPass this (take n pixels) = Inr this' \<longrightarrow>
       clusterCentres this' = clusterCentres this
       \<and> this' = this\<lparr>newClusterCentres := newClusterCentres this',
                        sumDist := sumDist this', numVals := numVals this'\<rparr>) \<and>
   (clusterCentres this \<noteq> []
      \<and> length (newClusterCentres this) = length (clusterCentres this)
      \<and> (\<forall>v\<in>set pixels. numImageBands this \<le> length v)
    \<longrightarrow> (\<exists>this'. accumulatorPass this pixels = Inr this'))"
proof (intro conjI allI impI)
  fix n this'
  assume p: "accumulatorPass this (take n pixels) = Inr this'"
  have fr: "this' = this\<lparr>newClusterCentres := newClusterCentres this',
                        sumDist := sumDist this', numVals := numVals this'\<rparr>"
    using accumulatorPass_frame [OF p] by simp
  show "this' = this\<lparr>newClusterCentres := newClusterCentres this',
                        sumDist := sumDist this', numVals := numVals this'\<rparr>"
    by (rule fr)
  show "clusterCentres this' = clusterCentres this"
    by (subst fr) simp
next
  assume "clusterCentres this \<noteq> []
      \<and> length (newClusterCentres this) = length (clusterCentres this)
      \<and> (\<forall>v\<in>set pixels. numImageBands this \<le> length v)"
  then show "\<exists>this'. accumulatorPass this pixels = Inr this'"
    using accumulatorPass_returns [of this pixels] by blast
qed

text \<open>The theorem on a pass over three pixels, the second a border pixel.\<close>

theorem published_set_read_only_during_pass_witness:
  "\<exists>this'. accumulatorPass
      \<lparr>clusterCentres =
         [\<lparr>clusterID = 1, mean = [10, 10], stddev = [1, 1], population = 7\<rparr>,
          \<lparr>clusterID = 2, mean = [90, 90], stddev = [2, 2], population = 8\<rparr>],
       newClusterCentres =
         [\<lparr>clusterID = 0, mean = [0, 0], stddev = [0, 0], population = 0\<rparr>,
          \<lparr>clusterID = 0, mean = [0, 0], stddev = [0, 0], population = 0\<rparr>],
       numImageBands = 2, sumDist = 0, numVals = 0\<rparr>
      [[13, 14], [0, 3], [90, 91]] = Inr this'
    \<and> clusterCentres this'
      = [\<lparr>clusterID = 1, mean = [10, 10], stddev = [1, 1], population = 7\<rparr>,
         \<lparr>clusterID = 2, mean = [90, 90], stddev = [2, 2], population = 8\<rparr>]"
proof -
  let ?acc = "\<lparr>clusterCentres =
         [\<lparr>clusterID = 1, mean = [10, 10], stddev = [1, 1], population = 7\<rparr>,
          \<lparr>clusterID = 2, mean = [90, 90], stddev = [2, 2], population = 8\<rparr>],
       newClusterCentres =
         [\<lparr>clusterID = 0, mean = [0, 0], stddev = [0, 0], population = 0\<rparr>,
          \<lparr>clusterID = 0, mean = [0, 0], stddev = [0, 0], population = 0\<rparr>],
       numImageBands = 2, sumDist = 0, numVals = 0\<rparr>"
  let ?pixels = "[[13, 14], [0, 3], [90, 91 :: real]]"
  note inst = published_set_read_only_during_pass [of ?acc ?pixels]
  have "\<exists>this'. accumulatorPass ?acc ?pixels = Inr this'"
    by (rule inst [THEN conjunct2, THEN mp]) simp
  then obtain this' where p: "accumulatorPass ?acc ?pixels = Inr this'" ..
  then have "accumulatorPass ?acc (take 3 ?pixels) = Inr this'"
    by simp
  then have "clusterCentres this' = clusterCentres ?acc"
    using inst [THEN conjunct1, THEN spec, THEN spec, THEN mp, of 3 this'] by blast
  with p show ?thesis
    by simp
qed

subsection \<open>Merge\<close>

text \<open>The merge returns a set without close pairs, and leaves such a set as it is.\<close>

lemma merge_fixed:
  "closePairs thr cs = [] \<Longrightarrow> merge thr cs = cs"
  by (simp add: merge.simps [of thr cs])

lemma closePairs_merge:
  "closePairs thr (merge thr cs) = []"
proof (induction thr cs rule: merge.induct)
  case (1 thr cs)
  show ?case
  proof (cases "closePairs thr cs")
    case Nil
    then show ?thesis by (simp add: merge_fixed)
  next
    case (Cons p ps)
    obtain i j where p: "p = (i, j)" by (cases p)
    have "closePairs thr
            (merge thr (take j (cs[i := mergePair (cs ! i) (cs ! j)])
                        @ drop (Suc j) (cs[i := mergePair (cs ! i) (cs ! j)]))) = []"
      using "1.IH" [OF Cons p [symmetric]] .
    then show ?thesis
      using Cons p by (simp add: merge.simps [of thr cs])
  qed
qed

lemma sqrt_less_nonneg: "0 \<le> t \<Longrightarrow> sqrt x < t \<longleftrightarrow> x < t\<^sup>2"
  by (metis real_sqrt_less_iff real_sqrt_abs abs_of_nonneg)

text \<open>The merge on three centroids, the first two at distance 5: with threshold 6 they are the
  only close pair and are merged, weighted 1 to 3.\<close>

lemma closePairs_example:
  "closePairs 6 [\<lparr>clusterID = 1, mean = [0, 0], stddev = [1, 1], population = 1\<rparr>,
            \<lparr>clusterID = 2, mean = [3, 4], stddev = [1, 1], population = 3\<rparr>,
            \<lparr>clusterID = 3, mean = [90, 90], stddev = [2, 2], population = 5\<rparr>] = [(0, 1)]"
  by (simp add: closePairs_def euclideanDistance_def upt_rec sqrt_less_nonneg)

lemma merge_example:
  "merge 6 [\<lparr>clusterID = 1, mean = [0, 0], stddev = [1, 1], population = 1\<rparr>,
            \<lparr>clusterID = 2, mean = [3, 4], stddev = [1, 1], population = 3\<rparr>,
            \<lparr>clusterID = 3, mean = [90, 90], stddev = [2, 2], population = 5\<rparr>]
   = [\<lparr>clusterID = 1, mean = [9 / 4, 3], stddev = [1, 1], population = 4\<rparr>,
      \<lparr>clusterID = 3, mean = [90, 90], stddev = [2, 2], population = 5\<rparr>]"
  by (simp add: merge.simps closePairs_def euclideanDistance_def upt_rec sqrt_less_nonneg
      mergePair_def weighted_def power2_eq_square)

text \<open>
  Claim C7. Merge is idempotent: for every centroid set and every threshold
  \<open>minDistanceBetweenCentres\<close>, merging the merged set again changes nothing.
\<close>

theorem merge_idempotent:
  "merge minDistanceBetweenCentres (merge minDistanceBetweenCentres cs)
   = merge minDistanceBetweenCentres cs"
  by (rule merge_fixed) (rule closePairs_merge)

text \<open>The theorem on the three centroids of the example above.\<close>

theorem merge_idempotent_witness:
  "merge 6 (merge 6
      [\<lparr>clusterID = 1, mean = [0, 0], stddev = [1, 1], population = 1\<rparr>,
       \<lparr>clusterID = 2, mean = [3, 4], stddev = [1, 1], population = 3\<rparr>,
       \<lparr>clusterID = 3, mean = [90, 90], stddev = [2, 2], population = 5\<rparr>])
   = [\<lparr>clusterID = 1, mean = [9 / 4, 3], stddev = [1, 1], population = 4\<rparr>,
      \<lparr>clusterID = 3, mean = [90, 90], stddev = [2, 2], population = 5\<rparr>]"
  using merge_idempotent [of 6
      "[\<lparr>clusterID = 1, mean = [0, 0], stddev = [1, 1], population = 1\<rparr>,
        \<lparr>clusterID = 2, mean = [3, 4], stddev = [1, 1], population = 3\<rparr>,
        \<lparr>clusterID = 3, mean = [90, 90], stddev = [2, 2], population = 5\<rparr>]"]
  by (simp only: merge_example)

end
